theory Spec2Isabelle
  imports Main
begin

section \<open>JavaScript values\<close>

text \<open>
  The scripts handle what \<^verbatim>\<open>JSON.parse\<close> produces from a response body, plus
  \<^verbatim>\<open>undefined\<close> for a property that is not there. Numbers are restricted to
  \<^verbatim>\<open>NaN\<close> and the integers that a double holds exactly; \<^verbatim>\<open>String\<close> reads any
  other integer as the double nearest to it. A string is
  the sequence of the bytes of its UTF-8 encoding, the form in which a request carries
  it, so that a character outside ASCII takes two to four bytes. \<open>JFunction\<close>
  stands for the one function object that a property read of the program can return:
  \<^verbatim>\<open>"...".link\<close>, a method every string inherits.
\<close>

datatype json =
    JUndefined
  | JNull
  | JBool bool
  | JNum int
  | JNaN
  | JStr string
  | JArr "json list"
  | JObj "(string \<times> json) list"
  | JFunction

text \<open>
  What is thrown: a TypeError of the language, the error of a rejected request, and the
  \<^verbatim>\<open>new Error(message)\<close> of the scripts; \<open>ErrorAbout m v\<close> is the message \<open>m\<close>
  followed by \<^verbatim>\<open>JSON.stringify(v)\<close>.
\<close>

datatype error =
    TypeError
  | AxiosError json
  | Error string
  | ErrorAbout string json

text \<open>JavaScript's \<^verbatim>\<open>ToBoolean\<close>: what \<^verbatim>\<open>if (v)\<close>, \<^verbatim>\<open>!v\<close> and \<^verbatim>\<open>a || b\<close> test.\<close>

fun truthy :: "json \<Rightarrow> bool" where
  "truthy JUndefined = False"
| "truthy JNull = False"
| "truthy (JBool b) = b"
| "truthy (JNum n) = (n \<noteq> 0)"
| "truthy JNaN = False"
| "truthy (JStr s) = (s \<noteq> [])"
| "truthy (JArr xs) = True"
| "truthy (JObj kvs) = True"
| "truthy JFunction = True"

fun nullish :: "json \<Rightarrow> bool" where
  "nullish JUndefined = True"
| "nullish JNull = True"
| "nullish v = False"

text \<open>\<^verbatim>\<open>a || b\<close> and \<^verbatim>\<open>a && b\<close>\<close>

definition js_or :: "json \<Rightarrow> json \<Rightarrow> json" where
  "js_or a b = (if truthy a then a else b)"

definition js_and :: "json \<Rightarrow> json \<Rightarrow> json" where
  "js_and a b = (if truthy a then b else a)"

text \<open>
  \<open>get v k\<close> is the property read \<^verbatim>\<open>v.k\<close> on a value that is neither
  \<^verbatim>\<open>null\<close> nor \<^verbatim>\<open>undefined\<close>, for the property names the scripts read: from
  response data \<^verbatim>\<open>entry\<close>, \<^verbatim>\<open>link\<close>, \<^verbatim>\<open>resource\<close>, \<^verbatim>\<open>resourceType\<close>,
  \<^verbatim>\<open>id\<close>, \<^verbatim>\<open>relation\<close>, \<^verbatim>\<open>url\<close>, \<^verbatim>\<open>encounter\<close>, \<^verbatim>\<open>subject\<close>,
  \<^verbatim>\<open>reference\<close> and \<^verbatim>\<open>access_token\<close>, from their arguments \<^verbatim>\<open>type\<close>,
  \<^verbatim>\<open>token\<close> and the names of the bundle options, from \<^verbatim>\<open>CFG\<close> its keys. Of
  these, only \<^verbatim>\<open>link\<close> exists on a primitive: it is a method of every string. An
  object is an association list whose first binding of a key is the property.
\<close>

fun get :: "json \<Rightarrow> string \<Rightarrow> json" where
  "get (JObj kvs) k = (case map_of kvs k of Some v \<Rightarrow> v | None \<Rightarrow> JUndefined)"
| "get (JStr s) k = (if k = ''link'' then JFunction else JUndefined)"
| "get v k = JUndefined"

text \<open>\<^verbatim>\<open>v.k\<close>: a TypeError on \<^verbatim>\<open>null\<close> and \<^verbatim>\<open>undefined\<close>.\<close>

definition read_prop :: "json \<Rightarrow> string \<Rightarrow> error + json" where
  "read_prop v k = (if nullish v then Inl TypeError else Inr (get v k))"

text \<open>\<^verbatim>\<open>v?.k\<close>\<close>

definition opt_prop :: "json \<Rightarrow> string \<Rightarrow> json" where
  "opt_prop v k = (if nullish v then JUndefined else get v k)"

text \<open>
  The receiver of \<^verbatim>\<open>(v || []).forEach(f)\<close> and \<^verbatim>\<open>(v || []).find(f)\<close>: only an
  array has these methods, calling them on anything else is a TypeError.
\<close>

fun array_of :: "json \<Rightarrow> error + json list" where
  "array_of (JArr xs) = Inr xs"
| "array_of v = (if truthy v then Inl TypeError else Inr [])"

text \<open>
  The code points of a string: in UTF-8 a code point is a byte that is not of the form
  \<^verbatim>\<open>10xxxxxx\<close>, with the bytes of that form that follow it.
\<close>

definition continuation :: "char \<Rightarrow> bool" where
  "continuation c = (128 \<le> (of_char c :: nat) \<and> (of_char c :: nat) < 192)"

function code_points :: "string \<Rightarrow> string list" where
  "code_points [] = []"
| "code_points (c # s) = (c # takeWhile continuation s) # code_points (dropWhile continuation s)"
  by pat_completeness auto

termination
  by (relation "measure length") (auto simp: length_dropWhile_le less_Suc_eq_le)

text \<open>
  The values \<^verbatim>\<open>for (const e of v || [])\<close> iterates over: the elements of an array,
  the code points of a string; other truthy values are not iterable.
\<close>

fun iterate_of :: "json \<Rightarrow> error + json list" where
  "iterate_of (JArr xs) = Inr xs"
| "iterate_of (JStr s) = Inr (map JStr (code_points s))"
| "iterate_of v = (if truthy v then Inl TypeError else Inr [])"

subsection \<open>Strings\<close>

text \<open>\<^verbatim>\<open>s.startsWith(p)\<close>\<close>

definition startsWith :: "string \<Rightarrow> string \<Rightarrow> bool" where
  "startsWith s p = (take (length p) s = p)"

text \<open>\<^verbatim>\<open>s.split(c)\<close> for a one-character separator: never empty.\<close>

fun split :: "char \<Rightarrow> string \<Rightarrow> string list" where
  "split c [] = [[]]"
| "split c (x # xs) =
     (if x = c then [] # split c xs
      else (case split c xs of [] \<Rightarrow> [[x]] | w # ws \<Rightarrow> (x # w) # ws))"

text \<open>\<^verbatim>\<open>parts[i]\<close>: \<^verbatim>\<open>undefined\<close> past the end.\<close>

definition at_index :: "string list \<Rightarrow> nat \<Rightarrow> json" where
  "at_index parts i = (if i < length parts then JStr (parts ! i) else JUndefined)"

text \<open>\<^verbatim>\<open>parts.join(sep)\<close>\<close>

fun join :: "string \<Rightarrow> string list \<Rightarrow> string" where
  "join sep [] = []"
| "join sep [p] = p"
| "join sep (p # q # ps) = p @ sep @ join sep (q # ps)"

text \<open>
  What \<^verbatim>\<open>trim\<close> removes at both ends: the white space and the line terminators of
  ECMAScript. These are tab, LF, VT, FF, CR and space, then U+00A0, U+1680, U+2000 to
  U+200A, U+2028, U+2029, U+202F, U+205F, U+3000 and U+FEFF, each in its encoding.
\<close>

definition white_space :: "string list" where
  "white_space =
     [[CHR 0x09], [CHR 0x0A], [CHR 0x0B], [CHR 0x0C], [CHR 0x0D], [CHR 0x20],
      [CHR 0xC2, CHR 0xA0],
      [CHR 0xE1, CHR 0x9A, CHR 0x80],
      [CHR 0xE2, CHR 0x80, CHR 0x80], [CHR 0xE2, CHR 0x80, CHR 0x81],
      [CHR 0xE2, CHR 0x80, CHR 0x82], [CHR 0xE2, CHR 0x80, CHR 0x83],
      [CHR 0xE2, CHR 0x80, CHR 0x84], [CHR 0xE2, CHR 0x80, CHR 0x85],
      [CHR 0xE2, CHR 0x80, CHR 0x86], [CHR 0xE2, CHR 0x80, CHR 0x87],
      [CHR 0xE2, CHR 0x80, CHR 0x88], [CHR 0xE2, CHR 0x80, CHR 0x89],
      [CHR 0xE2, CHR 0x80, CHR 0x8A],
      [CHR 0xE2, CHR 0x80, CHR 0xA8], [CHR 0xE2, CHR 0x80, CHR 0xA9],
      [CHR 0xE2, CHR 0x80, CHR 0xAF],
      [CHR 0xE2, CHR 0x81, CHR 0x9F],
      [CHR 0xE3, CHR 0x80, CHR 0x80],
      [CHR 0xEF, CHR 0xBB, CHR 0xBF]]"

text \<open>\<open>strip ps s\<close> removes from the front of \<open>s\<close> every leading occurrence of one of \<open>ps\<close>.\<close>

fun strip :: "string list \<Rightarrow> string \<Rightarrow> string" where
  "strip ps [] = []"
| "strip ps (c # s) =
     (case find (\<lambda>p. p \<noteq> [] \<and> take (length p) (c # s) = p) ps of
        Some p \<Rightarrow> strip ps (drop (length p - 1) s)
      | None \<Rightarrow> c # s)"

text \<open>\<^verbatim>\<open>s.trim()\<close>: the front, then the back, read in reverse.\<close>

definition trim :: "string \<Rightarrow> string" where
  "trim s = rev (strip (map rev white_space) (rev (strip white_space s)))"

text \<open>
  The case conversions on the ASCII letters. The conversions of the platform cover all of
  Unicode and belong to the surroundings of the scripts; these two are the ones of the
  example worlds.
\<close>

definition upper_of :: "char \<Rightarrow> char" where
  "upper_of c =
     (case map_of (zip ''abcdefghijklmnopqrstuvwxyz'' ''ABCDEFGHIJKLMNOPQRSTUVWXYZ'') c of
        Some u \<Rightarrow> u | None \<Rightarrow> c)"

definition lower_of :: "char \<Rightarrow> char" where
  "lower_of c =
     (case map_of (zip ''ABCDEFGHIJKLMNOPQRSTUVWXYZ'' ''abcdefghijklmnopqrstuvwxyz'') c of
        Some l \<Rightarrow> l | None \<Rightarrow> c)"

definition ascii_upper :: "string \<Rightarrow> string" where
  "ascii_upper s = map upper_of s"

definition ascii_lower :: "string \<Rightarrow> string" where
  "ascii_lower s = map lower_of s"

text \<open>Decimal digits of a natural number, for the length of an array.\<close>

fun digits :: "nat \<Rightarrow> string" where
  "digits n =
     (if n < 10 then [''0123456789'' ! n]
      else digits (n div 10) @ [''0123456789'' ! (n mod 10)])"

declare digits.simps [simp del]

text \<open>Decimal digits of an integer that is not negative.\<close>

function decimal :: "int \<Rightarrow> string" where
  "decimal n =
     (if n < 10 then [''0123456789'' ! nat n]
      else decimal (n div 10) @ [''0123456789'' ! nat (n mod 10)])"
  by pat_completeness auto

termination
  by (relation "measure nat") auto

declare decimal.simps [simp del]

text \<open>
  The double nearest to an integer that is not negative: 53 significant bits, a tie going
  to the even significand. A result of more than 1024 bits stands for
  \<^verbatim>\<open>Infinity\<close>.
\<close>

function bit_width :: "int \<Rightarrow> nat" where
  "bit_width n = (if n \<le> 0 then 0 else Suc (bit_width (n div 2)))"
  by pat_completeness auto

termination
  by (relation "measure nat") auto

declare bit_width.simps [simp del]

definition to_double :: "int \<Rightarrow> int" where
  "to_double n =
     (if n < 9007199254740992 then n
      else (let e = bit_width n - 53; q = n div 2 ^ e; r = n mod 2 ^ e; half = 2 ^ (e - 1)
            in (if half < r \<or> (r = half \<and> odd q) then q + 1 else q) * 2 ^ e))"

text \<open>
  \<^verbatim>\<open>Number::toString\<close> prints the decimal number with the fewest significant digits
  that still converts to the double \<open>v\<close>, the one closest to \<open>v\<close> if there are several.
  \<open>shortest v p\<close> looks for it among the multiples of \<open>10 ^ p\<close>, then of \<open>10 ^ (p - 1)\<close>,
  and so on: only the two multiples around \<open>v\<close> can convert to \<open>v\<close>.
\<close>

fun shortest :: "int \<Rightarrow> nat \<Rightarrow> int" where
  "shortest v 0 = v"
| "shortest v (Suc p) =
     (let q = 10 ^ Suc p; lo = v div q * q; hi = lo + q
      in if to_double lo = v \<and> to_double hi = v
         then (if v - lo < hi - v \<or> (v - lo = hi - v \<and> even (v div q)) then lo else hi)
         else if to_double lo = v then lo
         else if to_double hi = v then hi
         else shortest v p)"

text \<open>
  The text of a decimal number: all its digits up to 21 of them, beyond that the
  significant digits with a point after the first and the exponent.
\<close>

definition decimal_text :: "int \<Rightarrow> string" where
  "decimal_text c =
     (let ds = decimal c; m = rev (dropWhile (\<lambda>d. d = CHR ''0'') (rev ds))
      in if length ds \<le> 21 then ds
         else (if length m \<le> 1 then take 1 ds else take 1 m @ ''.'' @ drop 1 m)
              @ ''e+'' @ decimal (int (length ds) - 1))"

text \<open>\<^verbatim>\<open>String(n)\<close> for a number \<open>n \<ge> 0\<close>: below \<open>2 ^ 53\<close> its digits.\<close>

definition number_text :: "int \<Rightarrow> string" where
  "number_text n =
     (if n < 9007199254740992 then decimal n
      else if 1024 < bit_width (to_double n) then ''Infinity''
      else decimal_text (shortest (to_double n) (length (decimal (to_double n)))))"

text \<open>
  \<^verbatim>\<open>String(v)\<close>, which template literals and \<^verbatim>\<open>URLSearchParams.append\<close> apply:
  an array joins the strings of its elements with commas, \<^verbatim>\<open>null\<close> and
  \<^verbatim>\<open>undefined\<close> elements giving the empty string.
\<close>

definition native_source :: string where
  "native_source = ''function link() { [native code] }''"

fun js_String :: "json \<Rightarrow> string" where
  "js_String JUndefined = ''undefined''"
| "js_String JNull = ''null''"
| "js_String (JBool b) = (if b then ''true'' else ''false'')"
| "js_String (JNum n) =
     (if n < 0 then CHR ''-'' # number_text (- n) else number_text n)"
| "js_String JNaN = ''NaN''"
| "js_String (JStr s) = s"
| "js_String (JArr xs) =
     join '','' (map (\<lambda>x. if nullish x then [] else js_String x) xs)"
| "js_String (JObj kvs) = ''[object Object]''"
| "js_String JFunction = native_source"

subsection \<open>Map\<close>

text \<open>
  A JavaScript \<^verbatim>\<open>Map\<close> is kept as the list of its entries in insertion order,
  which is the order \<^verbatim>\<open>values()\<close> iterates in. Keys are compared as \<^verbatim>\<open>Map\<close>
  compares them (SameValueZero): strings, numbers and booleans by value, arrays and
  objects by identity. Every array or object that \<^verbatim>\<open>JSON.parse\<close> builds is a new
  one, so such a key equals no key already in the map.
\<close>

type_synonym jsmap = "(json \<times> json) list"

fun by_value :: "json \<Rightarrow> bool" where
  "by_value (JArr xs) = False"
| "by_value (JObj kvs) = False"
| "by_value v = True"

definition same_key :: "json \<Rightarrow> json \<Rightarrow> bool" where
  "same_key a b = (by_value a \<and> a = b)"

text \<open>\<^verbatim>\<open>m.set(k, v)\<close>: an existing key keeps its place.\<close>

fun map_set :: "json \<Rightarrow> json \<Rightarrow> jsmap \<Rightarrow> jsmap" where
  "map_set k v [] = [(k, v)]"
| "map_set k v ((k', v') # m) =
     (if same_key k k' then (k', v) # m else (k', v') # map_set k v m)"

text \<open>\<^verbatim>\<open>m.has(k)\<close>\<close>

fun map_has :: "json \<Rightarrow> jsmap \<Rightarrow> bool" where
  "map_has k [] = False"
| "map_has k ((k', v') # m) = (if same_key k k' then True else map_has k m)"

text \<open>\<^verbatim>\<open>Array.from(m.values())\<close>\<close>

definition map_values :: "jsmap \<Rightarrow> json list" where
  "map_values m = map snd m"

subsection \<open>URLSearchParams\<close>

text \<open>
  \<^verbatim>\<open>URLSearchParams.toString()\<close>: the \<^verbatim>\<open>application/x-www-form-urlencoded\<close>
  serialisation. Letters, digits and \<^verbatim>\<open>*-._\<close> stay, a space becomes \<^verbatim>\<open>+\<close>,
  every other byte is percent-encoded.
\<close>

definition unreserved :: "char \<Rightarrow> bool" where
  "unreserved c =
     (c \<in> set ''ABCDEFGHIJKLMNOPQRSTUVWXYZabcdefghijklmnopqrstuvwxyz0123456789*-._'')"

definition hex_digit :: "nat \<Rightarrow> char" where
  "hex_digit n = ''0123456789ABCDEF'' ! n"

definition encode_char :: "char \<Rightarrow> string" where
  "encode_char c =
     (if unreserved c then [c]
      else if c = CHR '' '' then ''+''
      else [CHR ''%'', hex_digit (of_char c div 16), hex_digit (of_char c mod 16)])"

definition encode :: "string \<Rightarrow> string" where
  "encode s = concat (map encode_char s)"

type_synonym params = "(string \<times> string) list"

definition toString :: "params \<Rightarrow> string" where
  "toString ps = join ''&'' (map (\<lambda>(k, v). encode k @ ''='' @ encode v) ps)"

text \<open>\<^verbatim>\<open>if (v) params.append(name, value)\<close>\<close>

definition append_if :: "json \<Rightarrow> string \<Rightarrow> string \<Rightarrow> params \<Rightarrow> params" where
  "append_if v name val ps = (if truthy v then ps @ [(name, val)] else ps)"

section \<open>The outside world\<close>

text \<open>
  A request as \<^verbatim>\<open>axios.get(url, {headers, timeout})\<close> and
  \<^verbatim>\<open>axios.post(url, data, {headers, timeout})\<close> issue it. A run is the list of its
  events, oldest first: the requests it sent, the lines it wrote to the console (the
  first argument of the call, without its characters outside ASCII and the blank next to
  a leading pictograph), the random identifiers it drew, the
  clock values it read and the files it read. The server is any function of the run so
  far and the request: \<open>Inr\<close> the parsed body of a successful response (\<^verbatim>\<open>r.data\<close>),
  \<open>Inl\<close> the error of a rejected promise.
\<close>

record request =
  verb :: string
  url :: json
  body :: json
  headers :: "(string \<times> string) list"
  timeout :: int

datatype level = Log | Warn | Err

datatype event =
    Sent request
  | Console level string
  | Drew string
  | Clock int
  | ReadFile json

type_synonym server = "event list \<Rightarrow> request \<Rightarrow> error + json"

definition axios_get ::
  "server \<Rightarrow> json \<Rightarrow> (string \<times> string) list \<Rightarrow> int \<Rightarrow> event list
     \<Rightarrow> event list \<times> (error + json)" where
  "axios_get srv u hs t h =
     (h @ [Sent \<lparr>verb = ''GET'', url = u, body = JUndefined, headers = hs, timeout = t\<rparr>],
      srv h \<lparr>verb = ''GET'', url = u, body = JUndefined, headers = hs, timeout = t\<rparr>)"

definition axios_post ::
  "server \<Rightarrow> json \<Rightarrow> json \<Rightarrow> (string \<times> string) list \<Rightarrow> int \<Rightarrow> event list
     \<Rightarrow> event list \<times> (error + json)" where
  "axios_post srv u d hs t h =
     (h @ [Sent \<lparr>verb = ''POST'', url = u, body = d, headers = hs, timeout = t\<rparr>],
      srv h \<lparr>verb = ''POST'', url = u, body = d, headers = hs, timeout = t\<rparr>)"

text \<open>
  What the scripts take from their surroundings besides the server: the environment
  variables, the file system, the \<^verbatim>\<open>jose\<close> library (\<open>importPKCS8\<close>, and \<open>sign_jwt\<close>
  for \<^verbatim>\<open>new SignJWT(payload).setProtectedHeader(header).sign(key)\<close>), the clock in
  milliseconds with its ISO rendering, the source of random version-4 identifiers
  (\<^verbatim>\<open>uuidv4()\<close>, \<^verbatim>\<open>crypto.randomUUID()\<close>), base64, \<^verbatim>\<open>Number(v)\<close>, whose values
  need not be integers, and the case conversions of strings, which follow the tables of
  Unicode. What changes from call to call is a function of the run so far.
\<close>

record world =
  respond :: server
  process_env :: "string \<Rightarrow> string option"
  readFileSync :: "event list \<Rightarrow> json \<Rightarrow> error + string"
  importPKCS8 :: "string \<Rightarrow> error + string"
  sign_jwt :: "json \<Rightarrow> json \<Rightarrow> string \<Rightarrow> error + string"
  date_now :: "event list \<Rightarrow> int"
  toISOString :: "int \<Rightarrow> string"
  uuid :: "event list \<Rightarrow> string"
  base64 :: "string \<Rightarrow> string"
  to_number :: "json \<Rightarrow> json"
  toUpperCase :: "string \<Rightarrow> string"
  toLowerCase :: "string \<Rightarrow> string"

section \<open>Encounters by date range (src/unnamed/part\_001, the module utils/fhirQueries.js)\<close>

text \<open>
  The test \<^verbatim>\<open>res?.resourceType === 'Encounter' && res.id\<close> that every harvesting
  loop applies to a bundle entry's resource.
\<close>

definition is_encounter :: "json \<Rightarrow> bool" where
  "is_encounter res =
     (opt_prop res ''resourceType'' = JStr ''Encounter'' \<and> truthy (get res ''id''))"

text \<open>
  \<^verbatim>\<open>(b.entry || []).forEach(e => { const res = e.resource; if (...) encs.set(res.id, res); })\<close>:
  the same statement in \<^verbatim>\<open>fetchEncountersByDateRange\<close>, in the first pass of
  \<^verbatim>\<open>fetchEncountersByConditionCodes\<close> and, named \<^verbatim>\<open>harvestEncounters\<close>, in
  \<^verbatim>\<open>fetchEncountersByConditionCodesPost\<close>.
\<close>

fun harvest_entries :: "json list \<Rightarrow> jsmap \<Rightarrow> error + jsmap" where
  "harvest_entries [] encs = Inr encs"
| "harvest_entries (e # es) encs =
     (case read_prop e ''resource'' of
        Inl x \<Rightarrow> Inl x
      | Inr res \<Rightarrow>
          harvest_entries es
            (if is_encounter res then map_set (get res ''id'') res encs else encs))"

definition harvestEncounters :: "json \<Rightarrow> jsmap \<Rightarrow> error + jsmap" where
  "harvestEncounters b encs =
     (case read_prop b ''entry'' of
        Inl x \<Rightarrow> Inl x
      | Inr en \<Rightarrow>
          (case array_of en of
             Inl x \<Rightarrow> Inl x
           | Inr es \<Rightarrow> harvest_entries es encs))"

text \<open>\<^verbatim>\<open>links.find(l => l.relation === 'next')\<close>\<close>

fun find_next :: "json list \<Rightarrow> error + json" where
  "find_next [] = Inr JUndefined"
| "find_next (l # ls) =
     (case read_prop l ''relation'' of
        Inl x \<Rightarrow> Inl x
      | Inr r \<Rightarrow> if r = JStr ''next'' then Inr l else find_next ls)"

text \<open>\<^verbatim>\<open>(b.link || []).find(l => l.relation === 'next')?.url || null\<close>\<close>

definition next_url :: "json \<Rightarrow> error + json" where
  "next_url b =
     (case read_prop b ''link'' of
        Inl x \<Rightarrow> Inl x
      | Inr lk \<Rightarrow>
          (case array_of lk of
             Inl x \<Rightarrow> Inl x
           | Inr ls \<Rightarrow>
               (case find_next ls of
                  Inl x \<Rightarrow> Inl x
                | Inr nx \<Rightarrow> Inr (js_or (opt_prop nx ''url'') JNull))))"

text \<open>
  The loop \<^verbatim>\<open>while (url) { GET url; harvest; url = next link }\<close> of
  \<^verbatim>\<open>fetchEncountersByDateRange\<close> and of the first pass of
  \<^verbatim>\<open>fetchEncountersByConditionCodes\<close>. A server may hand out next links for ever,
  so the loop carries fuel: one unit per request, \<open>None\<close> when it runs out.
\<close>

fun encounter_pages ::
  "server \<Rightarrow> (string \<times> string) list \<Rightarrow> nat \<Rightarrow> json \<Rightarrow> jsmap \<Rightarrow> event list
     \<Rightarrow> (event list \<times> (error + jsmap)) option" where
  "encounter_pages srv hs 0 u encs h = (if truthy u then None else Some (h, Inr encs))"
| "encounter_pages srv hs (Suc n) u encs h =
     (if \<not> truthy u then Some (h, Inr encs)
      else
        (case axios_get srv u hs 30000 h of
           (h1, Inl x) \<Rightarrow> Some (h1, Inl x)
         | (h1, Inr b) \<Rightarrow>
             (case harvestEncounters b encs of
                Inl x \<Rightarrow> Some (h1, Inl x)
              | Inr encs1 \<Rightarrow>
                  (case next_url b of
                     Inl x \<Rightarrow> Some (h1, Inl x)
                   | Inr u1 \<Rightarrow> encounter_pages srv hs n u1 encs1 h1))))"

text \<open>
  The options object that the three query functions destructure; each reads the fields
  it names and ignores the others. A field the caller leaves out is \<open>JUndefined\<close>,
  and a parameter with a default then takes it.
\<close>

record opts =
  fhirBase :: json
  token :: json
  start :: json
  end' :: json
  dateField :: json
  patientId :: json
  status :: json
  codesCsv :: json
  includePatient :: json
  count :: json

definition default_to :: "json \<Rightarrow> json \<Rightarrow> json" where
  "default_to v d = (if v = JUndefined then d else v)"

definition bearer :: "json \<Rightarrow> (string \<times> string) list" where
  "bearer tok =
     [(''Authorization'', ''Bearer '' @ js_String tok), (''Accept'', ''application/fhir+json'')]"

text \<open>
  \<^verbatim>\<open>patientId.startsWith('Patient/') ? patientId : `Patient/${patientId}`\<close>, read only
  when \<^verbatim>\<open>patientId\<close> is truthy: a TypeError unless it is a string.
\<close>

definition patient_param :: "json \<Rightarrow> params \<Rightarrow> error + params" where
  "patient_param p ps =
     (if \<not> truthy p then Inr ps
      else
        (case p of
           JStr s \<Rightarrow>
             Inr (ps @ [(''patient'', if startsWith s ''Patient/'' then s else ''Patient/'' @ s)])
         | _ \<Rightarrow> Inl TypeError))"

definition range_params :: "opts \<Rightarrow> error + params" where
  "range_params opts =
     (case patient_param (patientId opts)
             (append_if (end' opts) (js_String (default_to (dateField opts) (JStr ''date'')))
                (''le'' @ js_String (end' opts))
                (append_if (start opts) (js_String (default_to (dateField opts) (JStr ''date'')))
                   (''ge'' @ js_String (start opts)) [])) of
        Inl x \<Rightarrow> Inl x
      | Inr ps \<Rightarrow>
          Inr (append_if (status opts) ''status'' (js_String (status opts)) ps
                 @ [(''_count'', js_String (default_to (count opts) (JNum 100)))]))"

text \<open>\<^verbatim>\<open>`${fhirBase}/Encounter?${params.toString()}`\<close>\<close>

definition range_url :: "opts \<Rightarrow> params \<Rightarrow> string" where
  "range_url opts ps = js_String (fhirBase opts) @ ''/Encounter?'' @ toString ps"

definition fetchEncountersByDateRange ::
  "server \<Rightarrow> opts \<Rightarrow> nat \<Rightarrow> event list \<Rightarrow> (event list \<times> (error + json list)) option" where
  "fetchEncountersByDateRange srv opts fuel h =
     (case range_params opts of
        Inl x \<Rightarrow> Some (h, Inl x)
      | Inr ps \<Rightarrow>
          (case encounter_pages srv (bearer (token opts)) fuel (JStr (range_url opts ps)) []
                  (h @ [Console Log (range_url opts ps)]) of
             None \<Rightarrow> None
           | Some (h1, Inl x) \<Rightarrow> Some (h1, Inl x)
           | Some (h1, Inr encs) \<Rightarrow> Some (h1, Inr (map_values encs))))"

subsection \<open>The invariant of the harvesting loops\<close>

text \<open>
  Every entry of the map is an Encounter with a truthy id, stored under that id, and no
  two keys are the same key.
\<close>

definition sound :: "jsmap \<Rightarrow> bool" where
  "sound m =
     ((\<forall>(k, v) \<in> set m. k = get v ''id'' \<and> is_encounter v)
      \<and> distinct (filter by_value (map fst m)))"

subsection \<open>A paginated search, as the server presents it\<close>














section \<open>Encounters by condition codes, GET (src/unnamed/part\_001)\<close>

text \<open>
  \<^verbatim>\<open>(codesCsv || '').split(',').map(s => s.trim()).filter(Boolean).join(',')\<close>:
  a truthy argument that is not a string has no \<^verbatim>\<open>split\<close>.
\<close>

definition buildCodeParam :: "json \<Rightarrow> error + string" where
  "buildCodeParam csv =
     (case js_or csv (JStr []) of
        JStr s \<Rightarrow> Inr (join '','' (filter (\<lambda>p. p \<noteq> []) (map trim (split CHR '','' s))))
      | _ \<Rightarrow> Inl TypeError)"

text \<open>The search parameters: the code list, the date window, a page size of 100.\<close>

definition codes_params :: "opts \<Rightarrow> error + params" where
  "codes_params opts =
     (case buildCodeParam (codesCsv opts) of
        Inl x \<Rightarrow> Inl x
      | Inr codeParam \<Rightarrow>
          Inr (append_if (end' opts) (js_String (dateField opts)) (''le'' @ js_String (end' opts))
                 (append_if (start opts) (js_String (dateField opts))
                    (''ge'' @ js_String (start opts))
                    (append_if (JStr codeParam) ''code'' codeParam []))
               @ [(''_count'', ''100'')]))"

text \<open>
  The body of \<^verbatim>\<open>for (const e of b.entry || [])\<close> in the second pass: for a
  Condition whose \<^verbatim>\<open>encounter.reference\<close> starts with \<^verbatim>\<open>Encounter/\<close> and whose id
  is not yet a key of the map,
  \<^verbatim>\<open>const er = await axios.get(`${fhirBase}/Encounter/${id}`, ...); encs.set(id, er.data)\<close>.
  The call is not inside a \<^verbatim>\<open>try\<close>: a rejected request leaves the function.
\<close>

definition follow_condition ::
  "server \<Rightarrow> (string \<times> string) list \<Rightarrow> json \<Rightarrow> json \<Rightarrow> jsmap \<Rightarrow> event list
     \<Rightarrow> event list \<times> (error + jsmap)" where
  "follow_condition srv hs base e encs h =
     (case read_prop e ''resource'' of
        Inl x \<Rightarrow> (h, Inl x)
      | Inr c \<Rightarrow>
          if opt_prop c ''resourceType'' \<noteq> JStr ''Condition'' then (h, Inr encs)
          else
            (case opt_prop (opt_prop c ''encounter'') ''reference'' of
               JStr ref \<Rightarrow>
                 if startsWith ref ''Encounter/'' then
                   (case at_index (split CHR ''/'' ref) 1 of
                      eid \<Rightarrow>
                        if map_has eid encs then (h, Inr encs)
                        else
                          (case axios_get srv
                                  (JStr (js_String base @ ''/Encounter/'' @ js_String eid))
                                  hs 15000 h of
                             (h1, Inl x) \<Rightarrow> (h1, Inl x)
                           | (h1, Inr d) \<Rightarrow> (h1, Inr (map_set eid d encs))))
                 else (h, Inr encs)
             | ref \<Rightarrow> if nullish ref then (h, Inr encs) else (h, Inl TypeError)))"

fun follow_conditions ::
  "server \<Rightarrow> (string \<times> string) list \<Rightarrow> json \<Rightarrow> json list \<Rightarrow> jsmap \<Rightarrow> event list
     \<Rightarrow> event list \<times> (error + jsmap)" where
  "follow_conditions srv hs base [] encs h = (h, Inr encs)"
| "follow_conditions srv hs base (e # es) encs h =
     (case follow_condition srv hs base e encs h of
        (h1, Inl x) \<Rightarrow> (h1, Inl x)
      | (h1, Inr encs1) \<Rightarrow> follow_conditions srv hs base es encs1 h1)"

text \<open>The second pass: \<^verbatim>\<open>while (url2) { ... }\<close> over the pages of the Condition search.\<close>

fun condition_pages ::
  "server \<Rightarrow> (string \<times> string) list \<Rightarrow> json \<Rightarrow> nat \<Rightarrow> json \<Rightarrow> jsmap \<Rightarrow> event list
     \<Rightarrow> (event list \<times> (error + jsmap)) option" where
  "condition_pages srv hs base 0 u encs h = (if truthy u then None else Some (h, Inr encs))"
| "condition_pages srv hs base (Suc n) u encs h =
     (if \<not> truthy u then Some (h, Inr encs)
      else
        (case axios_get srv u hs 30000 h of
           (h1, Inl x) \<Rightarrow> Some (h1, Inl x)
         | (h1, Inr b) \<Rightarrow>
             (case read_prop b ''entry'' of
                Inl x \<Rightarrow> Some (h1, Inl x)
              | Inr en \<Rightarrow>
                  (case iterate_of en of
                     Inl x \<Rightarrow> Some (h1, Inl x)
                   | Inr es \<Rightarrow>
                       (case follow_conditions srv hs base es encs h1 of
                          (h2, Inl x) \<Rightarrow> Some (h2, Inl x)
                        | (h2, Inr encs1) \<Rightarrow>
                            (case next_url b of
                               Inl x \<Rightarrow> Some (h2, Inl x)
                             | Inr u1 \<Rightarrow> condition_pages srv hs base n u1 encs1 h2))))))"

text \<open>\<^verbatim>\<open>`${fhirBase}/<Resource>?${params.toString()}`\<close>\<close>

definition search_url :: "json \<Rightarrow> string \<Rightarrow> params \<Rightarrow> string" where
  "search_url base resource ps = js_String base @ ''/'' @ resource @ ''?'' @ toString ps"

definition fetchEncountersByConditionCodes ::
  "server \<Rightarrow> opts \<Rightarrow> nat \<Rightarrow> event list \<Rightarrow> (event list \<times> (error + json list)) option" where
  "fetchEncountersByConditionCodes srv opts fuel h =
     (case codes_params opts of
        Inl x \<Rightarrow> Some (h, Inl x)
      | Inr ps \<Rightarrow>
          (case encounter_pages srv (bearer (token opts)) fuel
                  (JStr (search_url (fhirBase opts) ''Encounter'' ps)) []
                  (h @ [Console Log (search_url (fhirBase opts) ''Encounter'' ps)]) of
             None \<Rightarrow> None
           | Some (h1, Inl x) \<Rightarrow> Some (h1, Inl x)
           | Some (h1, Inr encs) \<Rightarrow>
               if length encs = 0 then
                 (case condition_pages srv (bearer (token opts)) (fhirBase opts) fuel
                         (JStr (search_url (fhirBase opts) ''Condition'' ps)) encs
                         (h1 @ [Console Log (search_url (fhirBase opts) ''Condition'' ps)]) of
                    None \<Rightarrow> None
                  | Some (h2, Inl x) \<Rightarrow> Some (h2, Inl x)
                  | Some (h2, Inr encs2) \<Rightarrow> Some (h2, Inr (map_values encs2)))
               else Some (h1, Inr (map_values encs))))"

section \<open>Encounters by condition codes, POST (src/unnamed/part\_000, the module utils/fhirQueriesPost.js)\<close>

definition post_headers :: "json \<Rightarrow> (string \<times> string) list" where
  "post_headers tok =
     [(''Authorization'', ''Bearer '' @ js_String tok),
      (''Accept'', ''application/fhir+json''),
      (''Content-Type'', ''application/x-www-form-urlencoded'')]"

text \<open>
  The form of the search; \<open>incl\<close> tells the first search, with its
  \<^verbatim>\<open>_include\<close> directives, from the fallback search without them.
\<close>

definition search_form :: "opts \<Rightarrow> string \<Rightarrow> bool \<Rightarrow> params" where
  "search_form opts codeParam incl =
     append_if (end' opts) (js_String (dateField opts)) (''le'' @ js_String (end' opts))
       (append_if (start opts) (js_String (dateField opts)) (''ge'' @ js_String (start opts))
          (append_if (JStr codeParam) ''code'' codeParam []))
     @ (if incl then
          append_if (default_to (includePatient opts) (JBool True)) ''_include'' ''Condition:subject''
            [(''_include'', ''Condition:encounter'')]
        else [])
     @ [(''_count'', js_String (default_to (count opts) (JNum 100)))]"

text \<open>\<^verbatim>\<open>bundle.entry.filter(e => e.resource.resourceType === 'Condition')\<close>\<close>

fun filter_conditions :: "json list \<Rightarrow> error + json list" where
  "filter_conditions [] = Inr []"
| "filter_conditions (e # es) =
     (case read_prop e ''resource'' of
        Inl x \<Rightarrow> Inl x
      | Inr res \<Rightarrow>
          (case read_prop res ''resourceType'' of
             Inl x \<Rightarrow> Inl x
           | Inr t \<Rightarrow>
               (case filter_conditions es of
                  Inl x \<Rightarrow> Inl x
                | Inr cs \<Rightarrow> Inr (if t = JStr ''Condition'' then e # cs else cs))))"

text \<open>
  \<^verbatim>\<open>conditions.map(c => c.resource?.encounter?.reference)
  .filter(ref => typeof ref === 'string' && ref.startsWith('Encounter/'))\<close>
\<close>

fun encounter_refs :: "json list \<Rightarrow> string list" where
  "encounter_refs [] = []"
| "encounter_refs (c # cs) =
     (case opt_prop (opt_prop (get c ''resource'') ''encounter'') ''reference'' of
        JStr ref \<Rightarrow> if startsWith ref ''Encounter/'' then ref # encounter_refs cs
                    else encounter_refs cs
      | _ \<Rightarrow> encounter_refs cs)"

text \<open>
  The body of \<^verbatim>\<open>for (const ref of encounterRefs)\<close>: skip a reference whose id is
  empty or already a key of the map, else GET the Encounter inside \<^verbatim>\<open>try\<close>; a
  rejected request is logged and the loop goes on.
\<close>

definition pull_reference ::
  "server \<Rightarrow> (string \<times> string) list \<Rightarrow> json \<Rightarrow> string \<Rightarrow> jsmap \<Rightarrow> event list
     \<Rightarrow> event list \<times> jsmap" where
  "pull_reference srv hs base ref encs h =
     (case at_index (split CHR ''/'' ref) 1 of
        encId \<Rightarrow>
          if \<not> truthy encId then (h, encs)
          else if map_has encId encs then (h, encs)
          else
            (case axios_get srv (JStr (js_String base @ ''/Encounter/'' @ js_String encId))
                    hs 20000 h of
               (h1, Inl x) \<Rightarrow>
                 (h1 @ [Console Log (''[ERROR] Failed to fetch '' @ ref @ '':'')], encs)
             | (h1, Inr enc) \<Rightarrow>
                 if is_encounter enc then
                   (h1 @ [Console Log (''[INFO] Pulled Encounter/'' @ js_String (get enc ''id'')
                                         @ '' via direct GET (fallback).'')],
                    map_set (get enc ''id'') enc encs)
                 else
                   (h1 @ [Console Log (''[WARN] GET '' @ ref
                                         @ '' returned non-Encounter or missing id.'')],
                    encs)))"

fun pull_references ::
  "server \<Rightarrow> (string \<times> string) list \<Rightarrow> json \<Rightarrow> string list \<Rightarrow> jsmap \<Rightarrow> event list
     \<Rightarrow> event list \<times> jsmap" where
  "pull_references srv hs base [] encs h = (h, encs)"
| "pull_references srv hs base (ref # refs) encs h =
     (case pull_reference srv hs base ref encs h of
        (h1, encs1) \<Rightarrow> pull_references srv hs base refs encs1 h1)"

text \<open>
  The block \<^verbatim>\<open>if (bundle.resourceType === 'Bundle' && Array.isArray(bundle.entry)) { ... }\<close>
  that follows the first search. It runs before \<^verbatim>\<open>harvestEncounters(bundle)\<close>, on the
  map as it is then.
\<close>

definition pull_first_page ::
  "server \<Rightarrow> (string \<times> string) list \<Rightarrow> json \<Rightarrow> json \<Rightarrow> jsmap \<Rightarrow> event list
     \<Rightarrow> event list \<times> (error + jsmap)" where
  "pull_first_page srv hs base bundle encs h =
     (case read_prop bundle ''resourceType'' of
        Inl x \<Rightarrow> (h, Inl x)
      | Inr t \<Rightarrow>
          (case (t, get bundle ''entry'') of
             (JStr rt, JArr es) \<Rightarrow>
               if rt = ''Bundle'' then
                 (case filter_conditions es of
                    Inl x \<Rightarrow> (h, Inl x)
                  | Inr conditions \<Rightarrow>
                      (case pull_references srv hs base (encounter_refs conditions) encs
                              (h @ [Console Log (CHR 0x0A # ''[INFO] Found ''
                                       @ digits (length conditions) @ '' Condition(s)''),
                                    Console Log (''[INFO] Conditions referencing encounters: ''
                                       @ digits (length (encounter_refs conditions)))]
                                 @ (if length (encounter_refs conditions) = 0
                                    then [Console Log ''[WARN] No Condition.encounter references present. Either the data lacks links or include is unsupported.'']
                                    else [])) of
                         (h1, encs1) \<Rightarrow>
                           (h1 @ [Console Log
                                    (''[INFO] Total Encounters collected (includes + fallback): ''
                                       @ digits (length encs1))],
                            Inr encs1)))
               else (h, Inr encs)
           | _ \<Rightarrow> (h, Inr encs)))"

text \<open>
  \<^verbatim>\<open>fetchEncounterByRef\<close> of the fallback: the rejected request becomes \<^verbatim>\<open>null\<close>
  (\<^verbatim>\<open>.catch(() => null)\<close>) and nothing is written to the console.
\<close>

definition fetchEncounterByRef ::
  "server \<Rightarrow> (string \<times> string) list \<Rightarrow> json \<Rightarrow> json \<Rightarrow> jsmap \<Rightarrow> event list
     \<Rightarrow> event list \<times> (error + jsmap)" where
  "fetchEncounterByRef srv hs base ref encs h =
     (case ref of
        JStr s \<Rightarrow>
          if \<not> startsWith s ''Encounter/'' then (h, Inr encs)
          else
            (case at_index (split CHR ''/'' s) 1 of
               eid \<Rightarrow>
                 if \<not> truthy eid then (h, Inr encs)
                 else if map_has eid encs then (h, Inr encs)
                 else
                   (case axios_get srv (JStr (js_String base @ ''/Encounter/'' @ js_String eid))
                           hs 20000 h of
                      (h1, Inl x) \<Rightarrow> (h1, Inr encs)
                    | (h1, Inr enc) \<Rightarrow>
                        (h1, Inr (if is_encounter enc then map_set (get enc ''id'') enc encs
                                  else encs))))
      | _ \<Rightarrow> if nullish ref then (h, Inr encs) else (h, Inl TypeError))"

text \<open>The body of the loop of \<^verbatim>\<open>processBundleConditions\<close>.\<close>

definition process_entry ::
  "server \<Rightarrow> (string \<times> string) list \<Rightarrow> json \<Rightarrow> json \<Rightarrow> jsmap \<Rightarrow> event list
     \<Rightarrow> event list \<times> (error + jsmap)" where
  "process_entry srv hs base e encs h =
     (case read_prop e ''resource'' of
        Inl x \<Rightarrow> (h, Inl x)
      | Inr res \<Rightarrow>
          if opt_prop res ''resourceType'' = JStr ''Condition'' then
            fetchEncounterByRef srv hs base
              (opt_prop (opt_prop res ''encounter'') ''reference'') encs h
          else (h, Inr encs))"

fun process_entries ::
  "server \<Rightarrow> (string \<times> string) list \<Rightarrow> json \<Rightarrow> json list \<Rightarrow> jsmap \<Rightarrow> event list
     \<Rightarrow> event list \<times> (error + jsmap)" where
  "process_entries srv hs base [] encs h = (h, Inr encs)"
| "process_entries srv hs base (e # es) encs h =
     (case process_entry srv hs base e encs h of
        (h1, Inl x) \<Rightarrow> (h1, Inl x)
      | (h1, Inr encs1) \<Rightarrow> process_entries srv hs base es encs1 h1)"

definition processBundleConditions ::
  "server \<Rightarrow> (string \<times> string) list \<Rightarrow> json \<Rightarrow> json \<Rightarrow> jsmap \<Rightarrow> event list
     \<Rightarrow> event list \<times> (error + jsmap)" where
  "processBundleConditions srv hs base bundlePage encs h =
     (case read_prop bundlePage ''entry'' of
        Inl x \<Rightarrow> (h, Inl x)
      | Inr en \<Rightarrow>
          (case iterate_of en of
             Inl x \<Rightarrow> (h, Inl x)
           | Inr es \<Rightarrow> process_entries srv hs base es encs h))"

text \<open>\<^verbatim>\<open>while (next2) { b = GET next2; await processBundleConditions(b); next2 = ... }\<close>\<close>

fun reference_pages ::
  "server \<Rightarrow> (string \<times> string) list \<Rightarrow> json \<Rightarrow> nat \<Rightarrow> json \<Rightarrow> jsmap \<Rightarrow> event list
     \<Rightarrow> (event list \<times> (error + jsmap)) option" where
  "reference_pages srv hs base 0 u encs h = (if truthy u then None else Some (h, Inr encs))"
| "reference_pages srv hs base (Suc n) u encs h =
     (if \<not> truthy u then Some (h, Inr encs)
      else
        (case axios_get srv u hs 30000 h of
           (h1, Inl x) \<Rightarrow> Some (h1, Inl x)
         | (h1, Inr b) \<Rightarrow>
             (case processBundleConditions srv hs base b encs h1 of
                (h2, Inl x) \<Rightarrow> Some (h2, Inl x)
              | (h2, Inr encs1) \<Rightarrow>
                  (case next_url b of
                     Inl x \<Rightarrow> Some (h2, Inl x)
                   | Inr u1 \<Rightarrow> reference_pages srv hs base n u1 encs1 h2))))"

text \<open>Step 3, entered when the map is still empty after the first search.\<close>

definition fallback_search ::
  "server \<Rightarrow> opts \<Rightarrow> string \<Rightarrow> nat \<Rightarrow> jsmap \<Rightarrow> event list
     \<Rightarrow> (event list \<times> (error + jsmap)) option" where
  "fallback_search srv opts codeParam fuel encs h =
     (case axios_post srv (JStr (js_String (fhirBase opts) @ ''/Condition/_search''))
             (JStr (toString (search_form opts codeParam False)))
             (post_headers (token opts)) 30000 h of
        (h1, Inl x) \<Rightarrow> Some (h1, Inl x)
      | (h1, Inr b) \<Rightarrow>
          (case processBundleConditions srv (post_headers (token opts)) (fhirBase opts) b encs h1 of
             (h2, Inl x) \<Rightarrow> Some (h2, Inl x)
           | (h2, Inr encs1) \<Rightarrow>
               (case next_url b of
                  Inl x \<Rightarrow> Some (h2, Inl x)
                | Inr u \<Rightarrow>
                    reference_pages srv (post_headers (token opts)) (fhirBase opts) fuel u
                      encs1 h2)))"

text \<open>
  Steps 1 and 2 on the first bundle: the direct fetches of the block above, then
  \<^verbatim>\<open>harvestEncounters(bundle)\<close>, then the loop over the next links, which is the
  loop of \<open>encounter_pages\<close> started at the first bundle's next link.
\<close>

definition included_search ::
  "server \<Rightarrow> opts \<Rightarrow> nat \<Rightarrow> json \<Rightarrow> event list \<Rightarrow> (event list \<times> (error + jsmap)) option" where
  "included_search srv opts fuel bundle h =
     (case pull_first_page srv (post_headers (token opts)) (fhirBase opts) bundle [] h of
        (h1, Inl x) \<Rightarrow> Some (h1, Inl x)
      | (h1, Inr encs1) \<Rightarrow>
          (case harvestEncounters bundle encs1 of
             Inl x \<Rightarrow> Some (h1, Inl x)
           | Inr encs2 \<Rightarrow>
               (case next_url bundle of
                  Inl x \<Rightarrow> Some (h1, Inl x)
                | Inr u \<Rightarrow> encounter_pages srv (post_headers (token opts)) fuel u encs2 h1)))"

definition fetchEncountersByConditionCodesPost ::
  "server \<Rightarrow> opts \<Rightarrow> nat \<Rightarrow> event list \<Rightarrow> (event list \<times> (error + json list)) option" where
  "fetchEncountersByConditionCodesPost srv opts fuel h =
     (case buildCodeParam (default_to (codesCsv opts) (JStr [])) of
        Inl x \<Rightarrow> Some (h, Inl x)
      | Inr codeParam \<Rightarrow>
          (case axios_post srv (JStr (js_String (fhirBase opts) @ ''/Condition/_search''))
                  (JStr (toString (search_form opts codeParam True)))
                  (post_headers (token opts)) 30000 h of
             (h1, Inl x) \<Rightarrow> Some (h1, Inl x)
           | (h1, Inr bundle) \<Rightarrow>
               (case included_search srv opts fuel bundle h1 of
                  None \<Rightarrow> None
                | Some (h2, Inl x) \<Rightarrow> Some (h2, Inl x)
                | Some (h2, Inr encs) \<Rightarrow>
                    if length encs = 0 then
                      (case fallback_search srv opts codeParam fuel encs h2 of
                         None \<Rightarrow> None
                       | Some (h3, Inl x) \<Rightarrow> Some (h3, Inl x)
                       | Some (h3, Inr encs3) \<Rightarrow> Some (h3, Inr (map_values encs3)))
                    else Some (h2, Inr (map_values encs)))))"

subsection \<open>The first request of the search with includes\<close>


section \<open>Client assertion (src/unnamed/part\_002, the module utils/clientAssertion.js)\<close>

text \<open>
  \<^verbatim>\<open>const now = Math.floor(Date.now() / 1000)\<close> and the payload
  \<^verbatim>\<open>{ iss: clientId, sub: clientId, aud, jti: uuidv4(), iat: now, exp: now + 300 }\<close>:
  the clock is read, then the identifier is drawn.
\<close>

definition assertion_payload ::
  "world \<Rightarrow> json \<Rightarrow> json \<Rightarrow> event list \<Rightarrow> event list \<times> json" where
  "assertion_payload w clientId aud h =
     (h @ [Clock (date_now w h), Drew (uuid w (h @ [Clock (date_now w h)]))],
      JObj [(''iss'', clientId), (''sub'', clientId), (''aud'', aud),
            (''jti'', JStr (uuid w (h @ [Clock (date_now w h)]))),
            (''iat'', JNum (date_now w h div 1000)),
            (''exp'', JNum (date_now w h div 1000 + 300))])"

definition signClientAssertion ::
  "world \<Rightarrow> json \<Rightarrow> json \<Rightarrow> json \<Rightarrow> json \<Rightarrow> event list \<Rightarrow> event list \<times> (error + string)" where
  "signClientAssertion w clientId aud kid privateKeyPath h =
     (case readFileSync w h privateKeyPath of
        Inl x \<Rightarrow> (h @ [ReadFile privateKeyPath], Inl x)
      | Inr pkcs8 \<Rightarrow>
          (case importPKCS8 w pkcs8 of
             Inl x \<Rightarrow> (h @ [ReadFile privateKeyPath], Inl x)
           | Inr key \<Rightarrow>
               (case assertion_payload w clientId aud (h @ [ReadFile privateKeyPath]) of
                  (h1, payload) \<Rightarrow>
                    (h1, sign_jwt w (JObj [(''alg'', JStr ''RS256''), (''kid'', kid)])
                           payload key))))"

section \<open>Configuration and tokens (src/scripts/ecr\_flow\_node.js)\<close>

definition env_var :: "world \<Rightarrow> string \<Rightarrow> json" where
  "env_var w name = (case process_env w name of None \<Rightarrow> JUndefined | Some s \<Rightarrow> JStr s)"

text \<open>The object \<^verbatim>\<open>CFG\<close>, built once from \<^verbatim>\<open>process.env\<close>.\<close>

definition CFG :: "world \<Rightarrow> json" where
  "CFG w =
     JObj [
       (''AUTH_MODE'',
          JStr (toUpperCase w (js_String (js_or (env_var w ''AUTH_MODE'') (JStr ''SOF_BACKEND''))))),
       (''CLIENT_ID'', env_var w ''CLIENT_ID''),
       (''CLIENT_SECRET'', env_var w ''CLIENT_SECRET''),
       (''TOKEN_URL'', env_var w ''TOKEN_URL''),
       (''SCOPE'', js_or (env_var w ''SCOPE'') (JStr ''system/*.read'')),
       (''KID'', env_var w ''KID''),
       (''PRIVATE_KEY_PATH'', env_var w ''PRIVATE_KEY_PATH''),
       (''REQUIRE_AUD'',
          JBool (toLowerCase w (js_String (js_or (env_var w ''REQUIRE_AUD'') (JStr ''true'')))
                 = ''true'')),
       (''AUD'', env_var w ''AUD''),
       (''FHIR_BASE'', env_var w ''FHIR_BASE''),
       (''START_DATE'', env_var w ''START_DATE''),
       (''END_DATE'', env_var w ''END_DATE''),
       (''DATE_FIELD'', js_or (env_var w ''DATE_FIELD'') (JStr ''recorded-date'')),
       (''CODES_CSV'',
          js_or (js_or (env_var w ''CANCER_CODES'') (env_var w ''CODES_CSV'')) (JStr [])),
       (''USE_POST_SEARCH'',
          JBool (toLowerCase w (js_String (js_or (env_var w ''USE_POST_SEARCH'') (JStr ''false'')))
                 = ''true'')),
       (''ECRNOW_TOKEN_URL'', env_var w ''ECRNOW_TOKEN_URL''),
       (''ECRNOW_CLIENT_ID'', env_var w ''ECRNOW_CLIENT_ID''),
       (''ECRNOW_CLIENT_SECRET'', env_var w ''ECRNOW_CLIENT_SECRET''),
       (''ECRNOW_USER_ID'', env_var w ''ECRNOW_USER_ID''),
       (''ECRNOW_API_BASE'', js_or (env_var w ''ECRNOW_API_BASE'') (JStr ''http://localhost:8081'')),
       (''FLOW_MODE'',
          JStr (toLowerCase w (js_String (js_or (env_var w ''FLOW_MODE'') (JStr ''notify''))))),
       (''VALIDATION_MODE'',
          JStr (js_String (js_or (env_var w ''VALIDATION_MODE'') (JStr ''false'')))),
       (''THROTTLE_CONTEXT'',
          JStr (js_String (js_or (env_var w ''THROTTLE_CONTEXT'') (JStr ''1''))))]"

text \<open>\<^verbatim>\<open>!obj[k] || String(obj[k]).trim() === ''\<close>\<close>

definition missing :: "json \<Rightarrow> bool" where
  "missing v = (if truthy v then trim (js_String v) = [] else True)"

text \<open>
  \<^verbatim>\<open>need(obj, keys)\<close>: throws \<^verbatim>\<open>Missing env: \<close> followed by the missing keys, joined
  with a comma and a space, when there is one.
\<close>

definition need :: "json \<Rightarrow> string list \<Rightarrow> error + unit" where
  "need obj keys =
     (case filter (\<lambda>k. missing (get obj k)) keys of
        [] \<Rightarrow> Inr ()
      | m # ms \<Rightarrow> Inl (Error (''Missing env: '' @ join '', '' (m # ms))))"

text \<open>
  The part of \<^verbatim>\<open>getFhirToken\<close> between its first \<^verbatim>\<open>need\<close> and its
  \<^verbatim>\<open>axios.post\<close>: the headers and the form of the token request, by \<^verbatim>\<open>AUTH_MODE\<close>.
\<close>

definition base_form :: "json \<Rightarrow> params" where
  "base_form cfg =
     append_if (get cfg ''SCOPE'') ''scope'' (js_String (get cfg ''SCOPE''))
       [(''grant_type'', ''client_credentials'')]"

definition audience :: "json \<Rightarrow> json" where
  "audience cfg = js_or (get cfg ''AUD'') (get cfg ''TOKEN_URL'')"

definition add_aud :: "json \<Rightarrow> params \<Rightarrow> params" where
  "add_aud cfg form =
     append_if (js_and (get cfg ''REQUIRE_AUD'') (audience cfg)) ''aud''
       (js_String (audience cfg)) form"

definition form_headers :: "(string \<times> string) list" where
  "form_headers =
     [(''Accept'', ''application/json''),
      (''Content-Type'', ''application/x-www-form-urlencoded'')]"

definition token_request ::
  "world \<Rightarrow> event list \<Rightarrow> event list \<times> (error + (string \<times> string) list \<times> params)" where
  "token_request w h =
     (if get (CFG w) ''AUTH_MODE'' = JStr ''SOF_BACKEND''
         \<or> get (CFG w) ''AUTH_MODE'' = JStr ''PRIVATE_KEY_JWT'' then
        (case need (CFG w) [''KID'', ''PRIVATE_KEY_PATH''] of
           Inl x \<Rightarrow> (h, Inl x)
         | Inr u \<Rightarrow>
             (case signClientAssertion w (get (CFG w) ''CLIENT_ID'') (audience (CFG w))
                     (get (CFG w) ''KID'') (get (CFG w) ''PRIVATE_KEY_PATH'') h of
                (h1, Inl x) \<Rightarrow> (h1, Inl x)
              | (h1, Inr clientAssertion) \<Rightarrow>
                  (h1, Inr (form_headers,
                     add_aud (CFG w)
                       (base_form (CFG w)
                        @ [(''client_id'', js_String (get (CFG w) ''CLIENT_ID'')),
                           (''client_assertion_type'',
                              ''urn:ietf:params:oauth:client-assertion-type:jwt-bearer''),
                           (''client_assertion'', clientAssertion)])))))
      else if get (CFG w) ''AUTH_MODE'' = JStr ''CLIENT_SECRET_BASIC'' then
        (case need (CFG w) [''CLIENT_SECRET''] of
           Inl x \<Rightarrow> (h, Inl x)
         | Inr u \<Rightarrow>
             (h, Inr (form_headers
                        @ [(''Authorization'',
                              ''Basic '' @ base64 w (js_String (get (CFG w) ''CLIENT_ID'') @ '':''
                                                     @ js_String (get (CFG w) ''CLIENT_SECRET'')))],
                      add_aud (CFG w) (base_form (CFG w)))))
      else if get (CFG w) ''AUTH_MODE'' = JStr ''CLIENT_SECRET_POST'' then
        (case need (CFG w) [''CLIENT_SECRET''] of
           Inl x \<Rightarrow> (h, Inl x)
         | Inr u \<Rightarrow>
             (h, Inr (form_headers,
                      add_aud (CFG w)
                        (base_form (CFG w)
                         @ [(''client_id'', js_String (get (CFG w) ''CLIENT_ID'')),
                            (''client_secret'', js_String (get (CFG w) ''CLIENT_SECRET''))]))))
      else (h, Inl (Error (''Unsupported AUTH_MODE: '' @ js_String (get (CFG w) ''AUTH_MODE'')))))"

definition getFhirToken :: "world \<Rightarrow> event list \<Rightarrow> event list \<times> (error + json)" where
  "getFhirToken w h =
     (case need (CFG w) [''TOKEN_URL'', ''CLIENT_ID'', ''FHIR_BASE''] of
        Inl x \<Rightarrow> (h, Inl x)
      | Inr u \<Rightarrow>
          (case token_request w h of
             (h1, Inl x) \<Rightarrow> (h1, Inl x)
           | (h1, Inr (hs, form)) \<Rightarrow>
               (case axios_post (respond w) (get (CFG w) ''TOKEN_URL'') (JStr (toString form))
                       hs 25000 h1 of
                  (h2, Inl x) \<Rightarrow> (h2, Inl x)
                | (h2, Inr d) \<Rightarrow>
                    if truthy (opt_prop d ''access_token'') then (h2, Inr (get d ''access_token''))
                    else
                      (h2, Inl (ErrorAbout
                         ''FHIR token endpoint did not return access_token. Body: '' d)))))"

definition getEcrToken :: "world \<Rightarrow> event list \<Rightarrow> event list \<times> (error + json)" where
  "getEcrToken w h =
     (case need (CFG w) [''ECRNOW_TOKEN_URL'', ''ECRNOW_CLIENT_ID''] of
        Inl x \<Rightarrow> (h, Inl x)
      | Inr u \<Rightarrow>
          (case axios_post (respond w) (get (CFG w) ''ECRNOW_TOKEN_URL'')
                  (JStr (toString
                     (append_if (get (CFG w) ''ECRNOW_USER_ID'') ''userId''
                        (js_String (get (CFG w) ''ECRNOW_USER_ID''))
                        (append_if (get (CFG w) ''ECRNOW_CLIENT_SECRET'') ''client_secret''
                           (js_String (get (CFG w) ''ECRNOW_CLIENT_SECRET''))
                           [(''grant_type'', ''client_credentials''),
                            (''client_id'', js_String (get (CFG w) ''ECRNOW_CLIENT_ID''))]))))
                  [(''Content-Type'', ''application/x-www-form-urlencoded'')] 20000 h of
             (h1, Inl x) \<Rightarrow> (h1, Inl x)
           | (h1, Inr d) \<Rightarrow> (h1, Inr (opt_prop d ''access_token''))))"

subsection \<open>The source of identifiers\<close>

text \<open>
  \<open>drawn h\<close> counts the identifiers drawn in the run \<open>h\<close>. A source of unique
  identifiers returns another identifier whenever another number of them has been drawn.
\<close>

fun is_draw :: "event \<Rightarrow> bool" where
  "is_draw (Drew s) = True"
| "is_draw e = False"

definition drawn :: "event list \<Rightarrow> nat" where
  "drawn h = length (filter is_draw h)"

definition unique_source :: "world \<Rightarrow> bool" where
  "unique_source w = (\<forall>h g. drawn h \<noteq> drawn g \<longrightarrow> uuid w h \<noteq> uuid w g)"

subsection \<open>The vocabulary of the claims about configuration\<close>

text \<open>
  The keys of an object that \<^verbatim>\<open>need\<close> finds missing; the four modes of the
  \<^verbatim>\<open>switch\<close> in \<^verbatim>\<open>getFhirToken\<close>; the keys every mode needs, and those a mode
  needs in its own \<^verbatim>\<open>case\<close>.
\<close>

definition missing_fields :: "json \<Rightarrow> string list \<Rightarrow> string list" where
  "missing_fields obj keys = filter (\<lambda>k. missing (get obj k)) keys"

definition supported_modes :: "string list" where
  "supported_modes =
     [''SOF_BACKEND'', ''PRIVATE_KEY_JWT'', ''CLIENT_SECRET_BASIC'', ''CLIENT_SECRET_POST'']"

definition common_fields :: "string list" where
  "common_fields = [''TOKEN_URL'', ''CLIENT_ID'', ''FHIR_BASE'']"

definition mode_fields :: "string \<Rightarrow> string list" where
  "mode_fields m =
     (if m = ''SOF_BACKEND'' \<or> m = ''PRIVATE_KEY_JWT'' then [''KID'', ''PRIVATE_KEY_PATH'']
      else if m = ''CLIENT_SECRET_BASIC'' \<or> m = ''CLIENT_SECRET_POST'' then [''CLIENT_SECRET'']
      else [])"

section \<open>The launch flow (src/scripts/ecr\_flow\_node.js)\<close>

text \<open>
  \<^verbatim>\<open>const ref = enc?.subject?.reference || ''; if (ref.startsWith('Patient/')) return
  ref.split('/')[1]; return null;\<close> A truthy reference that is not a string has no
  \<^verbatim>\<open>startsWith\<close>.
\<close>

definition getPatientIdFromEncounter :: "json \<Rightarrow> error + json" where
  "getPatientIdFromEncounter enc =
     (case js_or (opt_prop (opt_prop enc ''subject'') ''reference'') (JStr []) of
        JStr ref \<Rightarrow>
          if startsWith ref ''Patient/'' then Inr (at_index (split CHR ''/'' ref) 1)
          else Inr JNull
      | _ \<Rightarrow> Inl TypeError)"

text \<open>The body of the launch request.\<close>

definition launch_body :: "json \<Rightarrow> json \<Rightarrow> json \<Rightarrow> json" where
  "launch_body cfg patient encounter =
     JObj [(''fhirServerURL'', get cfg ''FHIR_BASE''),
           (''patientId'', patient),
           (''encounterId'', encounter),
           (''validationMode'', get cfg ''VALIDATION_MODE''),
           (''throttleContext'', get cfg ''THROTTLE_CONTEXT'')]"

text \<open>
  \<^verbatim>\<open>try { await axios.post(url, body, ...); console.log(...) } catch (e) {
  console.error(...) }\<close>, with two fresh identifiers in the headers.
\<close>

definition post_launch ::
  "world \<Rightarrow> string \<Rightarrow> json \<Rightarrow> json \<Rightarrow> json \<Rightarrow> event list \<Rightarrow> event list" where
  "post_launch w address ecrBearer patient encounter h =
     (case axios_post (respond w) (JStr address) (launch_body (CFG w) patient encounter)
             [(''Content-Type'', ''application/json''),
              (''Authorization'', ''Bearer '' @ js_String ecrBearer),
              (''X-Request-ID'', uuid w h),
              (''X-Correlation-ID'', uuid w (h @ [Drew (uuid w h)]))]
             60000
             (h @ [Drew (uuid w h), Drew (uuid w (h @ [Drew (uuid w h)]))]) of
        (h1, Inl x) \<Rightarrow>
          h1 @ [Console Err (''launchPatient failed for Encounter/'' @ js_String encounter @ '':'')]
      | (h1, Inr d) \<Rightarrow>
          h1 @ [Console Log (''launchPatient OK for Encounter/'' @ js_String encounter @ '':'')])"

text \<open>The body of \<^verbatim>\<open>for (const enc of encounters)\<close>.\<close>

definition launch_encounter ::
  "world \<Rightarrow> string \<Rightarrow> json \<Rightarrow> json \<Rightarrow> event list \<Rightarrow> event list \<times> (error + unit)" where
  "launch_encounter w address ecrBearer enc h =
     (case getPatientIdFromEncounter enc of
        Inl x \<Rightarrow> (h, Inl x)
      | Inr patient \<Rightarrow>
          if truthy (opt_prop enc ''id'') \<and> truthy patient then
            (post_launch w address ecrBearer patient (opt_prop enc ''id'')
               (h @ [Console Log (''POST '' @ address @ ''  (Encounter/''
                                    @ js_String (opt_prop enc ''id'') @ '', Patient/''
                                    @ js_String patient @ '')'')]),
             Inr ())
          else
            (h @ [Console Warn (''Skipping encounter with missing ids (encounterId=''
                                  @ js_String (opt_prop enc ''id'') @ '', patientId=''
                                  @ js_String patient @ '')'')],
             Inr ()))"

fun launch_encounters ::
  "world \<Rightarrow> string \<Rightarrow> json \<Rightarrow> json list \<Rightarrow> event list \<Rightarrow> event list \<times> (error + unit)" where
  "launch_encounters w address ecrBearer [] h = (h, Inr ())"
| "launch_encounters w address ecrBearer (enc # encs) h =
     (case launch_encounter w address ecrBearer enc h of
        (h1, Inl x) \<Rightarrow> (h1, Inl x)
      | (h1, Inr u) \<Rightarrow> launch_encounters w address ecrBearer encs h1)"

text \<open>
  \<^verbatim>\<open>runLaunchFlow\<close> up to its loop: the two tokens, the checks, and the Encounters of
  the date range.
\<close>

definition launch_options :: "world \<Rightarrow> json \<Rightarrow> opts" where
  "launch_options w fhirToken =
     \<lparr>fhirBase = get (CFG w) ''FHIR_BASE'', token = fhirToken,
      start = get (CFG w) ''START_DATE'', end' = get (CFG w) ''END_DATE'',
      dateField = get (CFG w) ''DATE_FIELD'', patientId = JUndefined, status = JUndefined,
      codesCsv = JUndefined, includePatient = JUndefined, count = JUndefined\<rparr>"

definition launch_tokens :: "world \<Rightarrow> event list \<Rightarrow> event list \<times> (error + json \<times> json)" where
  "launch_tokens w h =
     (case getFhirToken w (h @ [Console Log ''Getting FHIR token ('']) of
        (h1, Inl x) \<Rightarrow> (h1, Inl x)
      | (h1, Inr fhirToken) \<Rightarrow>
          (case getEcrToken w (h1 @ [Console Log ''FHIR token OK.'',
                                     Console Log ''Getting eCRNow access token'']) of
             (h2, Inl x) \<Rightarrow> (h2, Inl x)
           | (h2, Inr ecrBearer) \<Rightarrow>
               (case need (JObj [(''ecrBearer'', ecrBearer)]) [''ecrBearer''] of
                  Inl x \<Rightarrow> (h2, Inl x)
                | Inr u \<Rightarrow>
                    (case need (CFG w) [''FHIR_BASE'', ''ECRNOW_API_BASE''] of
                       Inl x \<Rightarrow> (h2 @ [Console Log ''eCRNow token OK.''], Inl x)
                     | Inr u \<Rightarrow>
                         (h2 @ [Console Log ''eCRNow token OK.''],
                          Inr (fhirToken, ecrBearer))))))"

definition launch_encounters_found ::
  "world \<Rightarrow> nat \<Rightarrow> event list \<Rightarrow> (event list \<times> (error + json \<times> json list)) option" where
  "launch_encounters_found w fuel h =
     (case launch_tokens w h of
        (h1, Inl x) \<Rightarrow> Some (h1, Inl x)
      | (h1, Inr (fhirToken, ecrBearer)) \<Rightarrow>
          (case fetchEncountersByDateRange (respond w) (launch_options w fhirToken) fuel
                  (h1 @ [Console Log (''Querying FHIR for Encounters (USE_POST_SEARCH=''
                                        @ js_String (get (CFG w) ''USE_POST_SEARCH'') @ '')'')]) of
             None \<Rightarrow> None
           | Some (h2, Inl x) \<Rightarrow> Some (h2, Inl x)
           | Some (h2, Inr encounters) \<Rightarrow>
               Some (h2 @ [Console Log (''Found '' @ digits (length encounters)
                                         @ '' Encounter(s).'')],
                     Inr (ecrBearer, encounters))))"

definition launch_address :: "world \<Rightarrow> string" where
  "launch_address w = js_String (get (CFG w) ''ECRNOW_API_BASE'') @ ''/api/launchPatient''"

definition runLaunchFlow ::
  "world \<Rightarrow> nat \<Rightarrow> event list \<Rightarrow> (event list \<times> (error + unit)) option" where
  "runLaunchFlow w fuel h =
     (case launch_encounters_found w fuel h of
        None \<Rightarrow> None
      | Some (h1, Inl x) \<Rightarrow> Some (h1, Inl x)
      | Some (h1, Inr (ecrBearer, encounters)) \<Rightarrow>
          Some (launch_encounters w (launch_address w) ecrBearer encounters h1))"

definition runNotifyFlow :: "event list \<Rightarrow> event list \<times> (error + unit)" where
  "runNotifyFlow h = (h @ [Console Log ''FLOW_MODE=notify  running notification flow''], Inr ())"

text \<open>The main function: the events of the run and the exit code of the process.\<close>

definition main :: "world \<Rightarrow> nat \<Rightarrow> event list \<Rightarrow> (event list \<times> int) option" where
  "main w fuel h =
     (case (if get (CFG w) ''FLOW_MODE'' = JStr ''launch'' then runLaunchFlow w fuel h
            else Some (runNotifyFlow h)) of
        None \<Rightarrow> None
      | Some (h1, Inl x) \<Rightarrow> Some (h1 @ [Console Err ''Fatal:''], 1)
      | Some (h1, Inr u) \<Rightarrow> Some (h1 @ [Console Log ''Done.''], 0))"

subsection \<open>The vocabulary of the claims about the launch loop\<close>

text \<open>
  The requests and the console warnings among the events of a run. An Encounter is well
  referenced when its \<^verbatim>\<open>subject.reference\<close> is a string or falsy, so that
  \<^verbatim>\<open>getPatientIdFromEncounter\<close> returns; its patient is what that call returns, and it
  is launchable when its id and its patient are both truthy.
\<close>

fun sent :: "event list \<Rightarrow> request list" where
  "sent [] = []"
| "sent (Sent rq # h) = rq # sent h"
| "sent (e # h) = sent h"

fun warnings :: "event list \<Rightarrow> string list" where
  "warnings [] = []"
| "warnings (Console Warn s # h) = s # warnings h"
| "warnings (e # h) = warnings h"

definition well_referenced :: "json \<Rightarrow> bool" where
  "well_referenced enc =
     (case js_or (opt_prop (opt_prop enc ''subject'') ''reference'') (JStr []) of
        JStr ref \<Rightarrow> True
      | _ \<Rightarrow> False)"

definition patient_of :: "json \<Rightarrow> json" where
  "patient_of enc = (case getPatientIdFromEncounter enc of Inr p \<Rightarrow> p | Inl x \<Rightarrow> JNull)"

definition launchable :: "json \<Rightarrow> bool" where
  "launchable enc = (truthy (opt_prop enc ''id'') \<and> truthy (patient_of enc))"

definition skip_warning :: "json \<Rightarrow> string" where
  "skip_warning enc =
     ''Skipping encounter with missing ids (encounterId='' @ js_String (opt_prop enc ''id'')
     @ '', patientId='' @ js_String (patient_of enc) @ '')''"

section \<open>Notification bundle (src/utils/submitEncounter.js)\<close>

text \<open>
  \<^verbatim>\<open>encounter.id?.startsWith("Encounter/") ? encounter.id :
  `Encounter/${encounter.id || "unknown"}`\<close>: a TypeError when \<^verbatim>\<open>encounter\<close> is
  \<^verbatim>\<open>null\<close> or \<^verbatim>\<open>undefined\<close>, and when the id is neither of these nor a string.
\<close>

definition encounter_fullUrl :: "json \<Rightarrow> error + string" where
  "encounter_fullUrl encounter =
     (case read_prop encounter ''id'' of
        Inl x \<Rightarrow> Inl x
      | Inr (JStr s) \<Rightarrow>
          Inr (if startsWith s ''Encounter/'' then s
               else ''Encounter/'' @ js_String (js_or (JStr s) (JStr ''unknown'')))
      | Inr v \<Rightarrow>
          if nullish v then Inr (''Encounter/'' @ js_String (js_or v (JStr ''unknown'')))
          else Inl TypeError)"

text \<open>
  The options of \<^verbatim>\<open>buildNotificationBundle\<close> with their defaults; destructuring
  \<^verbatim>\<open>null\<close> is a TypeError, a missing second argument is \<^verbatim>\<open>{}\<close>.
\<close>

definition bundle_option :: "json \<Rightarrow> string \<Rightarrow> json \<Rightarrow> json" where
  "bundle_option options name d = default_to (get (default_to options (JObj [])) name) d"

definition buildNotificationBundle ::
  "world \<Rightarrow> json \<Rightarrow> json \<Rightarrow> event list \<Rightarrow> event list \<times> (error + json)" where
  "buildNotificationBundle w encounter options h =
     (if options = JNull then (h, Inl TypeError)
      else
        (case encounter_fullUrl encounter of
           Inl x \<Rightarrow> (h @ [Clock (date_now w h), Drew (uuid w (h @ [Clock (date_now w h)]))], Inl x)
         | Inr fullUrl \<Rightarrow>
             (h @ [Clock (date_now w h), Drew (uuid w (h @ [Clock (date_now w h)]))],
              Inr (JObj [
                (''resourceType'', JStr ''Bundle''),
                (''id'', JStr ''notification-full-resource''),
                (''meta'', JObj [
                   (''lastUpdated'', JStr (toISOString w (date_now w h))),
                   (''profile'', JArr [JStr
                      ''http://hl7.org/fhir/uv/subscriptions-backport/StructureDefinition/backport-subscription-notification''])]),
                (''type'', JStr ''history''),
                (''timestamp'', JStr (toISOString w (date_now w h))),
                (''entry'', JArr [
                   JObj [
                     (''fullUrl'', JStr (''urn:uuid:'' @ uuid w (h @ [Clock (date_now w h)]))),
                     (''resource'', JObj [
                        (''resourceType'', JStr ''Parameters''),
                        (''id'', JStr (last (split CHR '':''
                                  (''urn:uuid:'' @ uuid w (h @ [Clock (date_now w h)]))))),
                        (''meta'', JObj [
                           (''lastUpdated'', JStr (toISOString w (date_now w h))),
                           (''profile'', JArr [JStr
                              ''http://hl7.org/fhir/uv/subscriptions-backport/StructureDefinition/backport-subscriptionstatus''])]),
                        (''parameter'', JArr [
                           JObj [(''name'', JStr ''subscription''),
                                 (''valueReference'', JObj [(''reference'',
                                    bundle_option options ''subscriptionUrl'' (JStr
                                      ''http://ecr.drajer.com/secure/fhir-r4/fhir/Subscription/encounter-end''))])],
                           JObj [(''name'', JStr ''topic''),
                                 (''valueCanonical'',
                                    bundle_option options ''topicCanonical'' (JStr
                                      ''http://hl7.org/fhir/us/medmorph/SubscriptionTopic/encounter-end''))],
                           JObj [(''name'', JStr ''type''), (''valueCode'', JStr ''event-notification'')],
                           JObj [(''name'', JStr ''status''), (''valueCode'', JStr ''active'')],
                           JObj [(''name'', JStr ''events-since-subscription-start''),
                                 (''valueUnsignedInt'',
                                    to_number w (bundle_option options ''eventsSinceStart'' (JNum 1)))],
                           JObj [(''name'', JStr ''events-in-notification''),
                                 (''valueUnsignedInt'',
                                    to_number w (bundle_option options ''eventsInNotification'' (JNum 1)))]])]),
                     (''request'', JObj [
                        (''method'', JStr ''GET''),
                        (''url'', JStr (js_String (bundle_option options ''subscriptionUrl'' (JStr
                            ''http://ecr.drajer.com/secure/fhir-r4/fhir/Subscription/encounter-end''))
                          @ ''/$status''))]),
                     (''response'', JObj [(''status'', JStr ''200'')])],
                   JObj [(''fullUrl'', JStr fullUrl), (''resource'', encounter)]])]))))"

text \<open>\<^verbatim>\<open>submitEncounter\<close>: POST the bundle of one Encounter to the receiving endpoint.\<close>

definition submitEncounter ::
  "world \<Rightarrow> json \<Rightarrow> json \<Rightarrow> json \<Rightarrow> json \<Rightarrow> event list \<Rightarrow> event list \<times> (error + json)" where
  "submitEncounter w address encounter auth bundleOptions h =
     (case buildNotificationBundle w encounter bundleOptions h of
        (h1, Inl x) \<Rightarrow> (h1, Inl x)
      | (h1, Inr bundle) \<Rightarrow>
          axios_post (respond w) address bundle
            ([(''Content-Type'', ''application/fhir+json''), (''X-Request-ID'', ''1234''),
              (''Accept'', ''application/fhir+json'')]
             @ (if opt_prop auth ''type'' = JStr ''basic''
                then [(''Authorization'', js_String (get auth ''token''))]
                else if opt_prop auth ''type'' = JStr ''bearer''
                then [(''Authorization'', ''Bearer '' @ js_String (get auth ''token''))]
                else []))
            30000 h1)"

subsection \<open>The vocabulary of the claim about the notification bundle\<close>

text \<open>
  The address of the Encounter entry, by the Encounter's id: the id itself when it starts
  with \<^verbatim>\<open>Encounter/\<close>, else \<^verbatim>\<open>Encounter/\<close> followed by the id, or by
  \<^verbatim>\<open>unknown\<close> when the id is absent or empty.
\<close>

definition bundle_url :: "json \<Rightarrow> string" where
  "bundle_url encounter =
     (case get encounter ''id'' of
        JStr s \<Rightarrow> if startsWith s ''Encounter/'' then s
                  else ''Encounter/'' @ (if s = [] then ''unknown'' else s)
      | _ \<Rightarrow> ''Encounter/unknown'')"

section \<open>Example runs\<close>

text \<open>
  A server with a two-page Encounter search. The second page repeats the Encounter of
  the first page in a newer version, and holds a Patient and an entry without id.
\<close>

definition page_one :: json where
  "page_one =
     JObj [(''resourceType'', JStr ''Bundle''),
           (''entry'', JArr [JObj [(''resource'',
               JObj [(''resourceType'', JStr ''Encounter''), (''id'', JStr ''1'')])]]),
           (''link'', JArr [JObj [(''relation'', JStr ''self''), (''url'', JStr ''http://f/p1'')],
                            JObj [(''relation'', JStr ''next''), (''url'', JStr ''http://f/p2'')]])]"

definition page_two :: json where
  "page_two =
     JObj [(''resourceType'', JStr ''Bundle''),
           (''entry'', JArr [
              JObj [(''resource'', JObj [(''resourceType'', JStr ''Encounter''), (''id'', JStr ''2'')])],
              JObj [(''resource'', JObj [(''resourceType'', JStr ''Patient''), (''id'', JStr ''7'')])],
              JObj [(''resource'', JObj [(''resourceType'', JStr ''Encounter'')])],
              JObj [(''resource'', JObj [(''resourceType'', JStr ''Encounter''), (''id'', JStr ''1''),
                                         (''status'', JStr ''finished'')])]])]"

definition paged_server :: server where
  "paged_server h rq =
     (if url rq = JStr ''http://f/Encounter?date=ge2025-02-25&date=le2025-02-27&_count=100''
      then Inr page_one
      else if url rq = JStr ''http://f/p2'' then Inr page_two
      else Inl (AxiosError (JNum 404)))"

definition range_example :: opts where
  "range_example =
     \<lparr>fhirBase = JStr ''http://f'', token = JStr ''T'', start = JStr ''2025-02-25'',
      end' = JStr ''2025-02-27'', dateField = JUndefined, patientId = JUndefined,
      status = JUndefined, codesCsv = JUndefined,
      includePatient = JUndefined, count = JUndefined\<rparr>"

text \<open>A server that answers by the address of the request, and with 404 elsewhere.\<close>

definition table_server :: "(string \<times> (error + json)) list \<Rightarrow> server" where
  "table_server tbl h rq =
     (case url rq of
        JStr u \<Rightarrow> (case map_of tbl u of Some r \<Rightarrow> r | None \<Rightarrow> Inl (AxiosError (JNum 404)))
      | _ \<Rightarrow> Inl (AxiosError (JNum 404)))"

definition codes_example :: opts where
  "codes_example =
     \<lparr>fhirBase = JStr ''http://f'', token = JStr ''T'', start = JUndefined,
      end' = JUndefined, dateField = JStr ''recorded-date'', patientId = JUndefined,
      status = JUndefined, codesCsv = JStr ''sct|1'', includePatient = JBool False,
      count = JUndefined\<rparr>"

definition condition_of :: "string \<Rightarrow> string \<Rightarrow> json" where
  "condition_of cid ref =
     JObj [(''resource'', JObj [(''resourceType'', JStr ''Condition''), (''id'', JStr cid),
                                (''encounter'', JObj [(''reference'', JStr ref)])])]"

definition encounter_of :: "string \<Rightarrow> json" where
  "encounter_of eid = JObj [(''resourceType'', JStr ''Encounter''), (''id'', JStr eid)]"

text \<open>
  The Encounter search finds nothing; the Condition search finds two Conditions, of
  Encounters 1 and 2; the server has Encounter 2 but answers 404 for Encounter 1.
\<close>

definition gap_server :: server where
  "gap_server =
     table_server
       [(''http://f/Encounter?code=sct%7C1&_count=100'',
           Inr (JObj [(''resourceType'', JStr ''Bundle''), (''entry'', JArr [])])),
        (''http://f/Condition?code=sct%7C1&_count=100'',
           Inr (JObj [(''resourceType'', JStr ''Bundle''),
                      (''entry'', JArr [condition_of ''c1'' ''Encounter/1'',
                                        condition_of ''c2'' ''Encounter/2''])])),
        (''http://f/Encounter/2'', Inr (encounter_of ''2''))]"

text \<open>
  The Condition search with \<^verbatim>\<open>_include\<close> returns a Condition of Encounter 1 and,
  included in the same bundle, Encounter 1.
\<close>

definition include_server :: server where
  "include_server =
     table_server
       [(''http://f/Condition/_search'',
           Inr (JObj [(''resourceType'', JStr ''Bundle''),
                      (''entry'', JArr [condition_of ''c1'' ''Encounter/1'',
                                        JObj [(''resource'', encounter_of ''1'')]])])),
        (''http://f/Encounter/1'', Inr (encounter_of ''1''))]"




text \<open>
  A world for the examples: one key file, a clock that stands still, and identifiers
  numbered by the length of the run so far.
\<close>

definition demo_world :: world where
  "demo_world =
     \<lparr>respond = table_server [],
      process_env = map_of [],
      readFileSync = (\<lambda>h p. if p = JStr ''private.pem'' then Inr ''PKCS8'' else Inl (Error ''ENOENT'')),
      importPKCS8 = (\<lambda>s. Inr (''key:'' @ s)),
      sign_jwt = (\<lambda>hd pl key. Inr (js_String (get hd ''kid'') @ ''.'' @ js_String (get pl ''jti'') @ ''.'' @ key)),
      date_now = (\<lambda>h. 1700000000123),
      toISOString = (\<lambda>ms. ''2023-11-14T22:13:20.123Z''),
      uuid = (\<lambda>h. ''uuid-'' @ digits (length h)),
      base64 = (\<lambda>s. s),
      to_number = (\<lambda>v. v),
      toUpperCase = ascii_upper,
      toLowerCase = ascii_lower\<rparr>"

text \<open>The example world with a source whose identifiers grow with every draw.\<close>

definition serial_world :: world where
  "serial_world = demo_world\<lparr>uuid := (\<lambda>h. ''id-'' @ replicate (drawn h) CHR ''i'')\<rparr>"

text \<open>The example world with other environment variables and another server.\<close>

definition world_of :: "(string \<times> string) list \<Rightarrow> server \<Rightarrow> world" where
  "world_of vars srv = demo_world\<lparr>respond := srv, process_env := map_of vars\<rparr>"

text \<open>Client secret in the form, but neither token URL nor secret configured.\<close>

definition bare_world :: world where
  "bare_world =
     world_of [(''AUTH_MODE'', ''client_secret_post''), (''CLIENT_ID'', ''app''),
               (''FHIR_BASE'', ''http://f''), (''CLIENT_SECRET'', ''  '')]
       (table_server [])"

text \<open>
  The same with a token URL; the secret is a no-break space (U+00A0) and a byte order
  mark (U+FEFF), which \<^verbatim>\<open>trim\<close> removes like the ASCII blanks.
\<close>

definition no_secret_world :: world where
  "no_secret_world =
     world_of [(''AUTH_MODE'', ''client_secret_post''), (''CLIENT_ID'', ''app''),
               (''FHIR_BASE'', ''http://f''),
               (''CLIENT_SECRET'', [CHR 0xC2, CHR 0xA0, CHR 0xEF, CHR 0xBB, CHR 0xBF]),
               (''TOKEN_URL'', ''http://auth/token'')]
       (table_server [])"

text \<open>Complete configurations for the Basic mode and for the key mode.\<close>

definition token_server :: server where
  "token_server =
     table_server [(''http://auth/token'', Inr (JObj [(''access_token'', JStr ''tok'')]))]"

definition basic_world :: world where
  "basic_world =
     world_of [(''AUTH_MODE'', ''client_secret_basic''), (''CLIENT_ID'', ''app''),
               (''CLIENT_SECRET'', ''s3cret''), (''TOKEN_URL'', ''http://auth/token''),
               (''FHIR_BASE'', ''http://f'')]
       token_server"

definition key_world :: world where
  "key_world =
     world_of [(''CLIENT_ID'', ''app''), (''KID'', ''k1''), (''PRIVATE_KEY_PATH'', ''private.pem''),
               (''TOKEN_URL'', ''http://auth/token''), (''FHIR_BASE'', ''http://f''),
               (''REQUIRE_AUD'', ''FALSE''), (''SCOPE'', ''system/Encounter.read'')]
       token_server"

text \<open>
  The end-to-end scenario: the launch flow with \<^verbatim>\<open>CLIENT_SECRET_POST\<close> and a date range,
  against a server with two Encounters, the first of a patient, the second without
  subject.
\<close>

definition visit_one :: json where
  "visit_one =
     JObj [(''resourceType'', JStr ''Encounter''), (''id'', JStr ''1''),
           (''subject'', JObj [(''reference'', JStr ''Patient/56089'')])]"

definition visit_two :: json where
  "visit_two = JObj [(''resourceType'', JStr ''Encounter''), (''id'', JStr ''2'')]"

definition clinic_world :: world where
  "clinic_world =
     world_of
       [(''FLOW_MODE'', ''launch''), (''AUTH_MODE'', ''CLIENT_SECRET_POST''),
        (''CLIENT_ID'', ''app''), (''CLIENT_SECRET'', ''s3cret''),
        (''TOKEN_URL'', ''http://auth/token''), (''FHIR_BASE'', ''http://f''),
        (''START_DATE'', ''2025-02-25''), (''END_DATE'', ''2025-02-27''),
        (''ECRNOW_TOKEN_URL'', ''http://ecr/token''), (''ECRNOW_CLIENT_ID'', ''ecr'')]
       (table_server
          [(''http://auth/token'', Inr (JObj [(''access_token'', JStr ''tok'')])),
           (''http://ecr/token'', Inr (JObj [(''access_token'', JStr ''ecr-tok'')])),
           (''http://f/Encounter?recorded-date=ge2025-02-25&recorded-date=le2025-02-27&_count=100'',
              Inr (JObj [(''resourceType'', JStr ''Bundle''),
                         (''entry'', JArr [JObj [(''resource'', visit_one)],
                                           JObj [(''resource'', visit_two)]])])),
           (''http://localhost:8081/api/launchPatient'', Inr (JObj [(''status'', JStr ''ok'')]))])"

text \<open>The events of that scenario up to the loop of the launch flow.\<close>

definition clinic_prelude :: "event list" where
  "clinic_prelude =
     [Console Log ''Getting FHIR token ('',
      Sent \<lparr>verb = ''POST'', url = JStr ''http://auth/token'',
            body = JStr ''grant_type=client_credentials&scope=system%2F*.read&client_id=app&client_secret=s3cret&aud=http%3A%2F%2Fauth%2Ftoken'',
            headers = form_headers, timeout = 25000\<rparr>,
      Console Log ''FHIR token OK.'',
      Console Log ''Getting eCRNow access token'',
      Sent \<lparr>verb = ''POST'', url = JStr ''http://ecr/token'',
            body = JStr ''grant_type=client_credentials&client_id=ecr'',
            headers = [(''Content-Type'', ''application/x-www-form-urlencoded'')],
            timeout = 20000\<rparr>,
      Console Log ''eCRNow token OK.'',
      Console Log ''Querying FHIR for Encounters (USE_POST_SEARCH=false)'',
      Console Log ''http://f/Encounter?recorded-date=ge2025-02-25&recorded-date=le2025-02-27&_count=100'',
      Sent \<lparr>verb = ''GET'',
            url = JStr ''http://f/Encounter?recorded-date=ge2025-02-25&recorded-date=le2025-02-27&_count=100'',
            body = JUndefined, headers = bearer (JStr ''tok''), timeout = 30000\<rparr>,
      Console Log ''Found 2 Encounter(s).'']"

text \<open>
  Encounters whose patient reference is versioned, and absolute.
\<close>

definition versioned_visit :: json where
  "versioned_visit =
     JObj [(''resourceType'', JStr ''Encounter''), (''id'', JStr ''3''),
           (''subject'', JObj [(''reference'', JStr ''Patient/123/_history/1'')])]"

definition absolute_visit :: json where
  "absolute_visit =
     JObj [(''resourceType'', JStr ''Encounter''), (''id'', JStr ''4''),
           (''subject'', JObj [(''reference'', JStr ''http://f/Patient/56089'')])]"

section \<open>Properties\<close>

subsection \<open>Maps\<close>

lemma map_has_iff: "map_has k m \<longleftrightarrow> by_value k \<and> k \<in> fst ` set m"
  by (induction m) (auto simp: same_key_def)

lemma map_set_keys:
  "map fst (map_set k v m) = (if map_has k m then map fst m else map fst m @ [k])"
  by (induction m) (auto simp: same_key_def split: if_splits)

lemma set_map_set: "set (map_set k v m) \<subseteq> insert (k, v) (set m)"
  by (induction m) (auto simp: same_key_def split: if_splits)

lemma distinct_map_set:
  "distinct (filter by_value (map fst m)) \<Longrightarrow>
   distinct (filter by_value (map fst (map_set k v m)))"
  by (auto simp: map_set_keys map_has_iff)

subsection \<open>What the harvesting loop keeps in its map\<close>

lemma sound_empty: "sound []"
  by (simp add: sound_def)

lemma sound_map_set:
  assumes "sound m" and "is_encounter v"
  shows "sound (map_set (get v ''id'') v m)"
proof -
  have "\<forall>(k, w) \<in> set (map_set (get v ''id'') v m). k = get w ''id'' \<and> is_encounter w"
    using assms set_map_set [of "get v ''id''" v m] by (fastforce simp: sound_def)
  moreover have "distinct (filter by_value (map fst (map_set (get v ''id'') v m)))"
    using assms(1) by (simp add: sound_def distinct_map_set)
  ultimately show ?thesis by (simp add: sound_def)
qed

lemma sound_harvest_entries:
  "sound m \<Longrightarrow> harvest_entries es m = Inr m' \<Longrightarrow> sound m'"
proof (induction es arbitrary: m)
  case Nil
  then show ?case by simp
next
  case (Cons e es)
  from Cons.prems(2) obtain res where
    run: "harvest_entries es (if is_encounter res then map_set (get res ''id'') res m else m) = Inr m'"
    by (auto split: sum.splits)
  have "sound (if is_encounter res then map_set (get res ''id'') res m else m)"
    using Cons.prems(1) by (simp add: sound_map_set)
  then show ?case using run by (rule Cons.IH)
qed

lemma sound_harvestEncounters:
  "sound m \<Longrightarrow> harvestEncounters b m = Inr m' \<Longrightarrow> sound m'"
  by (auto simp: harvestEncounters_def split: sum.splits dest: sound_harvest_entries)

lemma sound_encounter_pages:
  "sound m \<Longrightarrow> encounter_pages srv hs n u m h = Some (h', Inr m') \<Longrightarrow> sound m'"
proof (induction n arbitrary: u m h)
  case 0
  then show ?case by (simp split: if_splits)
next
  case (Suc n)
  show ?case
  proof (cases "truthy u")
    case False
    with Suc.prems show ?thesis by simp
  next
    case True
    with Suc.prems obtain h1 b m1 u1 where
      "harvestEncounters b m = Inr m1"
      "encounter_pages srv hs n u1 m1 h1 = Some (h', Inr m')"
      by (auto split: prod.splits sum.splits)
    with Suc.IH Suc.prems(1) show ?thesis
      by (blast dest: sound_harvestEncounters)
  qed
qed

lemma sound_values:
  assumes "sound m"
  shows "(\<forall>e \<in> set (map_values m).
            get e ''resourceType'' = JStr ''Encounter'' \<and> truthy (get e ''id''))
       \<and> distinct (filter by_value (map (\<lambda>e. get e ''id'') (map_values m)))"
proof -
  have ids: "map (\<lambda>e. get e ''id'') (map_values m) = map fst m"
    using assms by (auto simp: sound_def map_values_def)
  have "\<And>e. is_encounter e \<Longrightarrow>
          get e ''resourceType'' = JStr ''Encounter'' \<and> truthy (get e ''id'')"
    by (auto simp: is_encounter_def opt_prop_def split: if_splits)
  moreover have "\<forall>e \<in> set (map_values m). is_encounter e"
    using assms by (auto simp: sound_def map_values_def)
  ultimately show ?thesis using assms ids by (simp add: sound_def)
qed

subsection \<open>Encounters by date range\<close>

lemma range_example_params:
  "range_params range_example =
     Inr [(''date'', ''ge2025-02-25''), (''date'', ''le2025-02-27''), (''_count'', ''100'')]"
  by (simp add: range_params_def range_example_def patient_param_def append_if_def
      default_to_def number_text_def decimal.simps)

lemma range_example_url:
  "range_url range_example
     [(''date'', ''ge2025-02-25''), (''date'', ''le2025-02-27''), (''_count'', ''100'')]
   = ''http://f/Encounter?date=ge2025-02-25&date=le2025-02-27&_count=100''"
  by (simp add: range_url_def range_example_def toString_def encode_def encode_char_def
      unreserved_def)

lemma paged_run:
  "fetchEncountersByDateRange paged_server range_example (Suc (Suc 0)) [] =
     Some ([Console Log ''http://f/Encounter?date=ge2025-02-25&date=le2025-02-27&_count=100'',
            Sent \<lparr>verb = ''GET'',
                  url = JStr ''http://f/Encounter?date=ge2025-02-25&date=le2025-02-27&_count=100'',
                  body = JUndefined,
                  headers = [(''Authorization'', ''Bearer T''), (''Accept'', ''application/fhir+json'')],
                  timeout = 30000\<rparr>,
            Sent \<lparr>verb = ''GET'', url = JStr ''http://f/p2'', body = JUndefined,
                  headers = [(''Authorization'', ''Bearer T''), (''Accept'', ''application/fhir+json'')],
                  timeout = 30000\<rparr>],
           Inr [JObj [(''resourceType'', JStr ''Encounter''), (''id'', JStr ''1''),
                      (''status'', JStr ''finished'')],
                JObj [(''resourceType'', JStr ''Encounter''), (''id'', JStr ''2'')]])"
proof -
  note ps = range_example_params and u = range_example_url
  show ?thesis
    apply (simp add: fetchEncountersByDateRange_def ps u)
    apply (simp add: range_example_def bearer_def paged_server_def page_one_def page_two_def
        axios_get_def harvestEncounters_def read_prop_def next_url_def is_encounter_def
        opt_prop_def same_key_def js_or_def map_values_def)
    done
qed

text \<open>
  Claim C9. Whenever \<^verbatim>\<open>fetchEncountersByDateRange\<close> returns, every element of the
  returned sequence has \<^verbatim>\<open>resourceType\<close> equal to \<^verbatim>\<open>'Encounter'\<close> and a truthy
  \<^verbatim>\<open>id\<close> (present, and not the empty string), and no two elements have the same id:
  the ids that \<^verbatim>\<open>Map\<close> compares by value, as every string is, are pairwise distinct.
  Bundle entries of another resource type or without id are not in the sequence.
\<close>

theorem fetchEncountersByDateRange_distinct_encounters:
  assumes "fetchEncountersByDateRange srv opts fuel h = Some (h', Inr encs)"
  shows "(\<forall>e \<in> set encs.
            get e ''resourceType'' = JStr ''Encounter'' \<and> truthy (get e ''id''))
       \<and> distinct (filter by_value (map (\<lambda>e. get e ''id'') encs))"
proof -
  from assms obtain m ps where m: "encs = map_values m"
    and run: "encounter_pages srv (bearer (token opts)) fuel (JStr (range_url opts ps)) []
        (h @ [Console Log (range_url opts ps)]) = Some (h', Inr m)"
    by (auto simp: fetchEncountersByDateRange_def split: sum.splits option.splits prod.splits)
  from sound_empty run have "sound m" by (rule sound_encounter_pages)
  then show ?thesis unfolding m by (rule sound_values)
qed

theorem fetchEncountersByDateRange_distinct_encounters_witness:
  "map_option snd (fetchEncountersByDateRange paged_server range_example (Suc (Suc 0)) [])
     = Some (Inr [JObj [(''resourceType'', JStr ''Encounter''), (''id'', JStr ''1''),
                        (''status'', JStr ''finished'')],
                  JObj [(''resourceType'', JStr ''Encounter''), (''id'', JStr ''2'')]])
   \<and> get (JObj [(''resourceType'', JStr ''Encounter''), (''id'', JStr ''1''),
                 (''status'', JStr ''finished'')]) ''resourceType'' = JStr ''Encounter''
   \<and> truthy (get (JObj [(''resourceType'', JStr ''Encounter''), (''id'', JStr ''2'')]) ''id'')
   \<and> distinct (filter by_value (map (\<lambda>e. get e ''id'')
         [JObj [(''resourceType'', JStr ''Encounter''), (''id'', JStr ''1''),
                (''status'', JStr ''finished'')],
          JObj [(''resourceType'', JStr ''Encounter''), (''id'', JStr ''2'')]]))"
  using fetchEncountersByDateRange_distinct_encounters [OF paged_run]
  by (simp add: paged_run)

subsection \<open>Pagination\<close>









































subsection \<open>Encounters by condition codes\<close>

text \<open>
  Claim C1, on the first page of the POST strategy. The server answers the search with
  a Condition of Encounter 1 and, included in the same bundle, Encounter 1 itself. The
  block that fetches the referenced Encounters runs before \<^verbatim>\<open>harvestEncounters\<close> has
  put the included ones into the map, so its test \<^verbatim>\<open>encounters.has(encId)\<close> finds the
  map empty: the run requests \<^verbatim>\<open>Encounter/1\<close> although the bundle it already holds
  includes it. The returned sequence has the Encounter once.
\<close>

theorem fetchEncountersByConditionCodesPost_fetches_included:
  "fetchEncountersByConditionCodesPost include_server codes_example (Suc 0) [] =
     Some ([Sent \<lparr>verb = ''POST'', url = JStr ''http://f/Condition/_search'',
                  body = JStr ''code=sct%7C1&_include=Condition%3Aencounter&_count=100'',
                  headers = post_headers (JStr ''T''), timeout = 30000\<rparr>,
            Console Log (CHR 0x0A # ''[INFO] Found 1 Condition(s)''),
            Console Log ''[INFO] Conditions referencing encounters: 1'',
            Sent \<lparr>verb = ''GET'', url = JStr ''http://f/Encounter/1'', body = JUndefined,
                  headers = post_headers (JStr ''T''), timeout = 20000\<rparr>,
            Console Log ''[INFO] Pulled Encounter/1 via direct GET (fallback).'',
            Console Log ''[INFO] Total Encounters collected (includes + fallback): 1''],
           Inr [encounter_of ''1''])"
  by code_simp

text \<open>
  Claim C2, on the fallback pass of the GET strategy. The Encounter search finds nothing
  and the Condition search finds Conditions of Encounters 1 and 2. The request for
  \<^verbatim>\<open>Encounter/1\<close> is rejected, and with it the whole call: the error is the result,
  nothing is logged, \<^verbatim>\<open>Encounter/2\<close> is never requested and no partial result is
  returned.
\<close>

theorem fetchEncountersByConditionCodes_aborts_on_failed_fetch:
  "fetchEncountersByConditionCodes gap_server codes_example (Suc 0) [] =
     Some ([Console Log ''http://f/Encounter?code=sct%7C1&_count=100'',
            Sent \<lparr>verb = ''GET'', url = JStr ''http://f/Encounter?code=sct%7C1&_count=100'',
                  body = JUndefined, headers = bearer (JStr ''T''), timeout = 30000\<rparr>,
            Console Log ''http://f/Condition?code=sct%7C1&_count=100'',
            Sent \<lparr>verb = ''GET'', url = JStr ''http://f/Condition?code=sct%7C1&_count=100'',
                  body = JUndefined, headers = bearer (JStr ''T''), timeout = 30000\<rparr>,
            Sent \<lparr>verb = ''GET'', url = JStr ''http://f/Encounter/1'', body = JUndefined,
                  headers = bearer (JStr ''T''), timeout = 15000\<rparr>],
           Inl (AxiosError (JNum 404)))"
  by code_simp

subsection \<open>Client assertion\<close>

text \<open>
  Claim C6. A call of \<^verbatim>\<open>signClientAssertion\<close> that succeeds has read the key file,
  imported the key, and returns what \<^verbatim>\<open>jose\<close> signs with that key from the protected
  header \<^verbatim>\<open>{alg: 'RS256', kid}\<close> and a payload with \<^verbatim>\<open>iss\<close> and \<^verbatim>\<open>sub\<close> the
  client id, \<^verbatim>\<open>aud\<close> the audience, \<^verbatim>\<open>iat\<close> the clock in whole seconds,
  \<^verbatim>\<open>exp\<close> 300 more, and \<^verbatim>\<open>jti\<close> the identifier drawn in this call, after the clock was
  read. With a source of unique identifiers, every later call of the same run that
  succeeds signs a payload with another \<^verbatim>\<open>jti\<close>: each call draws its own identifier.
\<close>

theorem signClientAssertion_payload:
  assumes "signClientAssertion w clientId aud kid path h = (h', Inr tok)"
  shows "\<exists>pkcs8 key payload.
          readFileSync w h path = Inr pkcs8 \<and> importPKCS8 w pkcs8 = Inr key
        \<and> assertion_payload w clientId aud (h @ [ReadFile path]) = (h', payload)
        \<and> sign_jwt w (JObj [(''alg'', JStr ''RS256''), (''kid'', kid)]) payload key = Inr tok
        \<and> get payload ''iss'' = clientId \<and> get payload ''sub'' = clientId
        \<and> get payload ''aud'' = aud
        \<and> get payload ''iat'' = JNum (date_now w (h @ [ReadFile path]) div 1000)
        \<and> get payload ''exp'' = JNum (date_now w (h @ [ReadFile path]) div 1000 + 300)
        \<and> get payload ''jti'' = JStr (uuid w (butlast h')) \<and> last h' = Drew (uuid w (butlast h'))
        \<and> (unique_source w \<longrightarrow>
             (\<forall>clientId2 aud2 kid2 path2 g h2 tok2.
                signClientAssertion w clientId2 aud2 kid2 path2 (h' @ g) = (h2, Inr tok2) \<longrightarrow>
                (\<exists>key2 payload2.
                   assertion_payload w clientId2 aud2 (h' @ g @ [ReadFile path2]) = (h2, payload2)
                 \<and> sign_jwt w (JObj [(''alg'', JStr ''RS256''), (''kid'', kid2)]) payload2 key2
                     = Inr tok2
                 \<and> get payload2 ''jti'' \<noteq> get payload ''jti'')))"
proof -
  have run: "\<exists>pkcs8 key payload.
          readFileSync w h path = Inr pkcs8 \<and> importPKCS8 w pkcs8 = Inr key
        \<and> assertion_payload w clientId aud (h @ [ReadFile path]) = (h', payload)
        \<and> sign_jwt w (JObj [(''alg'', JStr ''RS256''), (''kid'', kid)]) payload key = Inr tok"
    if "signClientAssertion w clientId aud kid path h = (h', Inr tok)"
    for clientId aud kid path h h' tok
    using that by (auto simp: signClientAssertion_def split: sum.splits prod.splits)
  from run [OF assms] obtain pkcs8 key payload where
    f: "readFileSync w h path = Inr pkcs8" and k: "importPKCS8 w pkcs8 = Inr key"
    and p: "assertion_payload w clientId aud (h @ [ReadFile path]) = (h', payload)"
    and s: "sign_jwt w (JObj [(''alg'', JStr ''RS256''), (''kid'', kid)]) payload key = Inr tok"
    by blast
  let ?g = "h @ [ReadFile path]"
  from p have h': "h' = ?g @ [Clock (date_now w ?g), Drew (uuid w (?g @ [Clock (date_now w ?g)]))]"
    and pl: "payload = JObj [(''iss'', clientId), (''sub'', clientId), (''aud'', aud),
            (''jti'', JStr (uuid w (?g @ [Clock (date_now w ?g)]))),
            (''iat'', JNum (date_now w ?g div 1000)),
            (''exp'', JNum (date_now w ?g div 1000 + 300))]"
    by (simp_all add: assertion_payload_def)
  have bl: "butlast h' = ?g @ [Clock (date_now w ?g)]"
    unfolding h' by (simp add: butlast_append)
  have fields: "get payload ''iss'' = clientId" "get payload ''sub'' = clientId"
    "get payload ''aud'' = aud"
    "get payload ''iat'' = JNum (date_now w ?g div 1000)"
    "get payload ''exp'' = JNum (date_now w ?g div 1000 + 300)"
    "get payload ''jti'' = JStr (uuid w (butlast h'))"
    unfolding bl pl by simp_all
  have l: "last h' = Drew (uuid w (butlast h'))"
    unfolding bl unfolding h' by simp
  have d1: "drawn h' = Suc (drawn (butlast h'))"
    unfolding bl unfolding h' by (simp add: drawn_def)
  have later: "\<exists>key2 payload2.
         assertion_payload w clientId2 aud2 (h' @ g @ [ReadFile path2]) = (h2, payload2)
       \<and> sign_jwt w (JObj [(''alg'', JStr ''RS256''), (''kid'', kid2)]) payload2 key2 = Inr tok2
       \<and> get payload2 ''jti'' \<noteq> get payload ''jti''"
    if u: "unique_source w"
      and c: "signClientAssertion w clientId2 aud2 kid2 path2 (h' @ g) = (h2, Inr tok2)"
    for clientId2 aud2 kid2 path2 g h2 tok2
  proof -
    let ?k = "h' @ g @ [ReadFile path2]"
    from run [OF c] obtain key2 payload2 where
      p2: "assertion_payload w clientId2 aud2 ((h' @ g) @ [ReadFile path2]) = (h2, payload2)"
      and s2: "sign_jwt w (JObj [(''alg'', JStr ''RS256''), (''kid'', kid2)]) payload2 key2
                 = Inr tok2"
      by blast
    from p2 have j2: "get payload2 ''jti'' = JStr (uuid w (?k @ [Clock (date_now w ?k)]))"
      by (auto simp: assertion_payload_def)
    have "drawn (?k @ [Clock (date_now w ?k)]) = drawn h' + drawn g"
      by (simp add: drawn_def)
    with d1 have "drawn (butlast h') \<noteq> drawn (?k @ [Clock (date_now w ?k)])" by simp
    with u have "uuid w (butlast h') \<noteq> uuid w (?k @ [Clock (date_now w ?k)])"
      unfolding unique_source_def by blast
    with j2 fields(6) have "get payload2 ''jti'' \<noteq> get payload ''jti''" by simp
    with p2 s2 show ?thesis by auto
  qed
  from f k p s fields l later show ?thesis by blast
qed

lemma unique_source_serial_world: "unique_source serial_world"
  by (simp add: unique_source_def serial_world_def)

lemma serial_sign_run:
  "signClientAssertion serial_world (JStr ''app'') (JStr ''https://auth/token'') (JStr ''k1'')
     (JStr ''private.pem'') [] =
     ([ReadFile (JStr ''private.pem''), Clock 1700000000123, Drew ''id-''],
      Inr ''k1.id-.key:PKCS8'')"
  by code_simp

lemma serial_sign_again:
  "signClientAssertion serial_world (JStr ''app'') (JStr ''https://auth/token'') (JStr ''k1'')
     (JStr ''private.pem'')
     ([ReadFile (JStr ''private.pem''), Clock 1700000000123, Drew ''id-''] @ []) =
     ([ReadFile (JStr ''private.pem''), Clock 1700000000123, Drew ''id-'',
       ReadFile (JStr ''private.pem''), Clock 1700000000123, Drew ''id-i''],
      Inr ''k1.id-i.key:PKCS8'')"
  by code_simp

theorem signClientAssertion_payload_witness:
  "signClientAssertion serial_world (JStr ''app'') (JStr ''https://auth/token'') (JStr ''k1'')
     (JStr ''private.pem'') [] =
     ([ReadFile (JStr ''private.pem''), Clock 1700000000123, Drew ''id-''],
      Inr ''k1.id-.key:PKCS8'')
   \<and> unique_source serial_world
   \<and> get (snd (assertion_payload serial_world (JStr ''app'') (JStr ''https://auth/token'')
              [ReadFile (JStr ''private.pem'')])) ''exp'' = JNum 1700000300
   \<and> get (snd (assertion_payload serial_world (JStr ''app'') (JStr ''https://auth/token'')
              [ReadFile (JStr ''private.pem'')])) ''jti'' = JStr ''id-''
   \<and> get (snd (assertion_payload serial_world (JStr ''app'') (JStr ''https://auth/token'')
              [ReadFile (JStr ''private.pem''), Clock 1700000000123, Drew ''id-'',
               ReadFile (JStr ''private.pem'')])) ''jti'' \<noteq> JStr ''id-''"
proof -
  let ?h' = "[ReadFile (JStr ''private.pem''), Clock 1700000000123, Drew ''id-'']"
  let ?h2 = "[ReadFile (JStr ''private.pem''), Clock 1700000000123, Drew ''id-'',
       ReadFile (JStr ''private.pem''), Clock 1700000000123, Drew ''id-i'']"
  from signClientAssertion_payload [OF serial_sign_run] obtain payload where
    p: "assertion_payload serial_world (JStr ''app'') (JStr ''https://auth/token'')
          ([] @ [ReadFile (JStr ''private.pem'')]) = (?h', payload)"
    and e: "get payload ''exp''
          = JNum (date_now serial_world ([] @ [ReadFile (JStr ''private.pem'')]) div 1000 + 300)"
    and j: "get payload ''jti'' = JStr (uuid serial_world (butlast ?h'))"
    and later: "unique_source serial_world \<longrightarrow>
             (\<forall>clientId2 aud2 kid2 path2 g h2 tok2.
                signClientAssertion serial_world clientId2 aud2 kid2 path2 (?h' @ g)
                  = (h2, Inr tok2) \<longrightarrow>
                (\<exists>key2 payload2.
                   assertion_payload serial_world clientId2 aud2 (?h' @ g @ [ReadFile path2])
                     = (h2, payload2)
                 \<and> sign_jwt serial_world (JObj [(''alg'', JStr ''RS256''), (''kid'', kid2)])
                       payload2 key2 = Inr tok2
                 \<and> get payload2 ''jti'' \<noteq> get payload ''jti''))"
    by (elim exE conjE) (rule that)
  have u2: "uuid serial_world (butlast ?h') = ''id-''"
    by (simp add: serial_world_def drawn_def)
  from later [rule_format, OF unique_source_serial_world serial_sign_again] obtain payload2 where
    p2: "assertion_payload serial_world (JStr ''app'') (JStr ''https://auth/token'')
           (?h' @ [] @ [ReadFile (JStr ''private.pem'')]) = (?h2, payload2)"
    and n: "get payload2 ''jti'' \<noteq> get payload ''jti''"
    by blast
  from p have s: "snd (assertion_payload serial_world (JStr ''app'') (JStr ''https://auth/token'')
          [ReadFile (JStr ''private.pem'')]) = payload" by simp
  from p2 have s2: "snd (assertion_payload serial_world (JStr ''app'') (JStr ''https://auth/token'')
          [ReadFile (JStr ''private.pem''), Clock 1700000000123, Drew ''id-'',
               ReadFile (JStr ''private.pem'')]) = payload2" by simp
  have d: "date_now serial_world ([] @ [ReadFile (JStr ''private.pem'')]) div 1000 + 300
             = 1700000300"
    by (simp add: serial_world_def demo_world_def)
  from n have n': "get payload2 ''jti'' \<noteq> JStr ''id-''" unfolding j u2 .
  show ?thesis
    using serial_sign_run unique_source_serial_world n' e j unfolding s s2 u2 d by simp
qed

subsection \<open>Configuration and tokens\<close>

lemma need_missing:
  "need obj keys =
     (if missing_fields obj keys = [] then Inr ()
      else Inl (Error (''Missing env: '' @ join '', '' (missing_fields obj keys))))"
  by (simp add: need_def missing_fields_def split: list.splits)

lemma cfg_fields:
  "get (CFG w) ''SCOPE'' = js_or (env_var w ''SCOPE'') (JStr ''system/*.read'')"
  "get (CFG w) ''AUD'' = env_var w ''AUD''"
  "get (CFG w) ''TOKEN_URL'' = env_var w ''TOKEN_URL''"
  by (simp_all add: CFG_def)

lemma scope_truthy: "truthy (js_or v (JStr ''system/*.read''))"
  by (simp add: js_or_def)

lemma require_aud_bool: "\<exists>b. get (CFG w) ''REQUIRE_AUD'' = JBool b"
  by (simp add: CFG_def)

lemma form_of_request:
  assumes "get (CFG w) ''AUTH_MODE'' = JStr m"
    and "token_request w h = (h1, Inr (hs, form))"
  shows "m \<in> set supported_modes
    \<and> hs = form_headers @ (if m = ''CLIENT_SECRET_BASIC''
               then [(''Authorization'',
                       ''Basic '' @ base64 w (js_String (get (CFG w) ''CLIENT_ID'') @ '':''
                                              @ js_String (get (CFG w) ''CLIENT_SECRET'')))]
               else [])
    \<and> (\<exists>own. form = add_aud (CFG w) (base_form (CFG w) @ own)
        \<and> ''aud'' \<notin> fst ` set own \<and> ''scope'' \<notin> fst ` set own \<and> ''grant_type'' \<notin> fst ` set own
        \<and> (''client_assertion'' \<in> fst ` set own \<longleftrightarrow> m = ''SOF_BACKEND'' \<or> m = ''PRIVATE_KEY_JWT'')
        \<and> (''client_assertion_type'' \<in> fst ` set own \<longleftrightarrow> m = ''SOF_BACKEND'' \<or> m = ''PRIVATE_KEY_JWT''))"
proof -
  consider "m = ''SOF_BACKEND'' \<or> m = ''PRIVATE_KEY_JWT''" | "m = ''CLIENT_SECRET_BASIC''"
    | "m = ''CLIENT_SECRET_POST''"
    | "m \<noteq> ''SOF_BACKEND''" "m \<noteq> ''PRIVATE_KEY_JWT''" "m \<noteq> ''CLIENT_SECRET_BASIC''"
      "m \<noteq> ''CLIENT_SECRET_POST''"
    by blast
  then show ?thesis
  proof cases
    case 1
    with assms show ?thesis
      by (auto simp: token_request_def supported_modes_def split: sum.splits prod.splits)
  next
    case 2
    with assms show ?thesis
      by (auto simp: token_request_def supported_modes_def split: sum.splits prod.splits
          intro!: exI [of _ "[]"])
  next
    case 3
    with assms show ?thesis
      by (auto simp: token_request_def supported_modes_def split: sum.splits prod.splits)
  next
    case 4
    with assms show ?thesis by (simp add: token_request_def)
  qed
qed

lemma token_request_missing:
  assumes "get (CFG w) ''AUTH_MODE'' = JStr m" and "m \<in> set supported_modes"
   and e: "missing_fields (CFG w) (mode_fields m) \<noteq> []"
  shows "token_request w h =
      (h, Inl (Error (''Missing env: '' @ join '', '' (missing_fields (CFG w) (mode_fields m)))))"
proof -
  from assms(2) consider "m = ''SOF_BACKEND''" | "m = ''PRIVATE_KEY_JWT''"
    | "m = ''CLIENT_SECRET_BASIC''" | "m = ''CLIENT_SECRET_POST''"
    by (auto simp: supported_modes_def)
  then show ?thesis
  proof cases
    case 1
    with assms(1) e show ?thesis by (simp add: token_request_def need_missing mode_fields_def)
  next
    case 2
    with assms(1) e show ?thesis by (simp add: token_request_def need_missing mode_fields_def)
  next
    case 3
    with assms(1) e show ?thesis by (simp add: token_request_def need_missing mode_fields_def)
  next
    case 4
    with assms(1) e show ?thesis by (simp add: token_request_def need_missing mode_fields_def)
  qed
qed

lemma present_truthy: "missing_fields obj keys = [] \<Longrightarrow> k \<in> set keys \<Longrightarrow> truthy (get obj k)"
  by (auto simp: missing_fields_def filter_empty_conv missing_def split: if_splits)

lemma built_request_shape:
  assumes mode: "get (CFG w) ''AUTH_MODE'' = JStr m"
    and complete: "missing_fields (CFG w) common_fields = []"
    and built: "token_request w h = (h1, Inr (hs, form))"
  shows "m \<in> set supported_modes
    \<and> missing_fields (CFG w) (mode_fields m) = []
    \<and> fst (getFhirToken w h) =
        h1 @ [Sent \<lparr>verb = ''POST'', url = env_var w ''TOKEN_URL'', body = JStr (toString form),
                     headers = hs, timeout = 25000\<rparr>]
    \<and> (''Authorization'' \<in> fst ` set hs \<longleftrightarrow> m = ''CLIENT_SECRET_BASIC'')
    \<and> (''client_assertion'' \<in> fst ` set form
         \<longleftrightarrow> m = ''SOF_BACKEND'' \<or> m = ''PRIVATE_KEY_JWT'')
    \<and> (''client_assertion_type'' \<in> fst ` set form
         \<longleftrightarrow> m = ''SOF_BACKEND'' \<or> m = ''PRIVATE_KEY_JWT'')
    \<and> (''grant_type'', ''client_credentials'') \<in> set form
    \<and> (''scope'', js_String (js_or (env_var w ''SCOPE'') (JStr ''system/*.read''))) \<in> set form
    \<and> (''aud'' \<in> fst ` set form \<longleftrightarrow> get (CFG w) ''REQUIRE_AUD'' = JBool True)
    \<and> (get (CFG w) ''REQUIRE_AUD'' = JBool True \<longrightarrow>
         (''aud'', js_String (js_or (env_var w ''AUD'') (env_var w ''TOKEN_URL''))) \<in> set form)"
proof -
  from form_of_request [OF mode built] obtain own where
    sup: "m \<in> set supported_modes"
    and hs: "hs = form_headers @ (if m = ''CLIENT_SECRET_BASIC''
               then [(''Authorization'',
                       ''Basic '' @ base64 w (js_String (get (CFG w) ''CLIENT_ID'') @ '':''
                                              @ js_String (get (CFG w) ''CLIENT_SECRET'')))]
               else [])"
    and form: "form = add_aud (CFG w) (base_form (CFG w) @ own)"
    and own: "''aud'' \<notin> fst ` set own" "''scope'' \<notin> fst ` set own"
      "''grant_type'' \<notin> fst ` set own"
      "''client_assertion'' \<in> fst ` set own \<longleftrightarrow> m = ''SOF_BACKEND'' \<or> m = ''PRIVATE_KEY_JWT''"
      "''client_assertion_type'' \<in> fst ` set own \<longleftrightarrow> m = ''SOF_BACKEND'' \<or> m = ''PRIVATE_KEY_JWT''"
    by blast
  have extra: "missing_fields (CFG w) (mode_fields m) = []"
  proof (rule ccontr)
    assume "missing_fields (CFG w) (mode_fields m) \<noteq> []"
    from token_request_missing [OF mode sup this, of h] built show False by simp
  qed
  have "truthy (get (CFG w) ''TOKEN_URL'')"
    using complete by (rule present_truthy) (simp add: common_fields_def)
  then have aud: "truthy (audience (CFG w))"
    by (simp add: audience_def js_or_def)
  obtain b where b: "get (CFG w) ''REQUIRE_AUD'' = JBool b"
    using require_aud_bool by blast
  have base: "base_form (CFG w) =
      [(''grant_type'', ''client_credentials''),
       (''scope'', js_String (js_or (env_var w ''SCOPE'') (JStr ''system/*.read'')))]"
    by (simp add: base_form_def append_if_def cfg_fields scope_truthy)
  have f: "form = base_form (CFG w) @ own
      @ (if b then [(''aud'', js_String (js_or (env_var w ''AUD'') (env_var w ''TOKEN_URL'')))]
         else [])"
    using aud by (simp add: form add_aud_def append_if_def js_and_def b audience_def cfg_fields)
  have sent: "fst (getFhirToken w h) =
        h1 @ [Sent \<lparr>verb = ''POST'', url = env_var w ''TOKEN_URL'', body = JStr (toString form),
                     headers = hs, timeout = 25000\<rparr>]"
    using complete built
    by (simp add: getFhirToken_def need_missing common_fields_def axios_post_def cfg_fields
        split: sum.splits)
  have auth: "''Authorization'' \<in> fst ` set hs \<longleftrightarrow> m = ''CLIENT_SECRET_BASIC''"
    by (cases "m = ''CLIENT_SECRET_BASIC''") (simp_all add: hs form_headers_def)
  have g: "(''grant_type'', ''client_credentials'') \<in> set form"
    and sc: "(''scope'', js_String (js_or (env_var w ''SCOPE'') (JStr ''system/*.read''))) \<in> set form"
    unfolding f base by (cases b; simp)+
  have ca: "''client_assertion'' \<in> fst ` set form
         \<longleftrightarrow> m = ''SOF_BACKEND'' \<or> m = ''PRIVATE_KEY_JWT''"
    unfolding f base using own(4) by (cases b) (simp_all add: image_Un)
  have ct: "''client_assertion_type'' \<in> fst ` set form
         \<longleftrightarrow> m = ''SOF_BACKEND'' \<or> m = ''PRIVATE_KEY_JWT''"
    unfolding f base using own(5) by (cases b) (simp_all add: image_Un)
  have au: "''aud'' \<in> fst ` set form \<longleftrightarrow> get (CFG w) ''REQUIRE_AUD'' = JBool True"
    unfolding f base b using own(1) by (cases b) (simp_all add: image_Un)
  have av: "get (CFG w) ''REQUIRE_AUD'' = JBool True \<longrightarrow>
         (''aud'', js_String (js_or (env_var w ''AUD'') (env_var w ''TOKEN_URL''))) \<in> set form"
    unfolding f base b by (cases b) simp_all
  from sup extra sent auth ca ct g sc au av show ?thesis by blast
qed

lemma token_request_built:
  assumes mode: "get (CFG w) ''AUTH_MODE'' = JStr m" and sup: "m \<in> set supported_modes"
    and extra: "missing_fields (CFG w) (mode_fields m) = []"
    and signed: "m = ''SOF_BACKEND'' \<or> m = ''PRIVATE_KEY_JWT'' \<longrightarrow>
        signClientAssertion w (get (CFG w) ''CLIENT_ID'') (audience (CFG w))
          (get (CFG w) ''KID'') (get (CFG w) ''PRIVATE_KEY_PATH'') h = (hk, Inr tok)"
  shows "\<exists>h1 hs form. token_request w h = (h1, Inr (hs, form))"
proof -
  from sup consider "m = ''SOF_BACKEND''" | "m = ''PRIVATE_KEY_JWT''"
    | "m = ''CLIENT_SECRET_BASIC''" | "m = ''CLIENT_SECRET_POST''"
    by (auto simp: supported_modes_def)
  then show ?thesis
  proof cases
    case 1
    with mode extra signed show ?thesis
      by (simp add: token_request_def need_missing mode_fields_def)
  next
    case 2
    with mode extra signed show ?thesis
      by (simp add: token_request_def need_missing mode_fields_def)
  next
    case 3
    with mode extra show ?thesis
      by (simp add: token_request_def need_missing mode_fields_def)
  next
    case 4
    with mode extra show ?thesis
      by (simp add: token_request_def need_missing mode_fields_def)
  qed
qed

text \<open>
  Claim C5. Let the mode be one of the four and let every key that the mode requires be
  configured; in the two key modes let \<^verbatim>\<open>signClientAssertion\<close> succeed. Then
  \<^verbatim>\<open>getFhirToken\<close> builds a request, with headers \<open>hs\<close> and form \<open>form\<close>, and the
  request it sends next is the POST of that form, with those headers, to \<^verbatim>\<open>TOKEN_URL\<close>.
  The headers have \<^verbatim>\<open>Authorization\<close> exactly in mode \<^verbatim>\<open>CLIENT_SECRET_BASIC\<close>; the
  form has \<^verbatim>\<open>client_assertion\<close> and \<^verbatim>\<open>client_assertion_type\<close> exactly in the modes
  \<^verbatim>\<open>SOF_BACKEND\<close> and \<^verbatim>\<open>PRIVATE_KEY_JWT\<close>; it has \<^verbatim>\<open>grant_type=client_credentials\<close>
  and a \<^verbatim>\<open>scope\<close>, which is \<^verbatim>\<open>system/*.read\<close> unless \<^verbatim>\<open>SCOPE\<close> is set; and it has
  \<^verbatim>\<open>aud\<close> exactly when \<^verbatim>\<open>REQUIRE_AUD\<close> is true, with the value of \<^verbatim>\<open>AUD\<close> or, when
  that is not set, of \<^verbatim>\<open>TOKEN_URL\<close>.
\<close>

theorem getFhirToken_request_shape:
  assumes mode: "get (CFG w) ''AUTH_MODE'' = JStr m" and sup: "m \<in> set supported_modes"
    and common: "missing_fields (CFG w) common_fields = []"
    and extra: "missing_fields (CFG w) (mode_fields m) = []"
    and signed: "m = ''SOF_BACKEND'' \<or> m = ''PRIVATE_KEY_JWT'' \<longrightarrow>
        signClientAssertion w (get (CFG w) ''CLIENT_ID'') (audience (CFG w))
          (get (CFG w) ''KID'') (get (CFG w) ''PRIVATE_KEY_PATH'') h = (hk, Inr tok)"
  shows "\<exists>h1 hs form.
      token_request w h = (h1, Inr (hs, form))
    \<and> fst (getFhirToken w h) =
        h1 @ [Sent \<lparr>verb = ''POST'', url = env_var w ''TOKEN_URL'', body = JStr (toString form),
                     headers = hs, timeout = 25000\<rparr>]
    \<and> (''Authorization'' \<in> fst ` set hs \<longleftrightarrow> m = ''CLIENT_SECRET_BASIC'')
    \<and> (''client_assertion'' \<in> fst ` set form
         \<longleftrightarrow> m = ''SOF_BACKEND'' \<or> m = ''PRIVATE_KEY_JWT'')
    \<and> (''client_assertion_type'' \<in> fst ` set form
         \<longleftrightarrow> m = ''SOF_BACKEND'' \<or> m = ''PRIVATE_KEY_JWT'')
    \<and> (''grant_type'', ''client_credentials'') \<in> set form
    \<and> (''scope'', js_String (js_or (env_var w ''SCOPE'') (JStr ''system/*.read''))) \<in> set form
    \<and> (''aud'' \<in> fst ` set form \<longleftrightarrow> get (CFG w) ''REQUIRE_AUD'' = JBool True)
    \<and> (get (CFG w) ''REQUIRE_AUD'' = JBool True \<longrightarrow>
         (''aud'', js_String (js_or (env_var w ''AUD'') (env_var w ''TOKEN_URL''))) \<in> set form)"
    (is "\<exists>h1 hs form. ?shape h1 hs form")
proof -
  from token_request_built [OF mode sup extra signed] obtain h1 hs form where
    built: "token_request w h = (h1, Inr (hs, form))" by blast
  note rest = built_request_shape [OF mode common built, THEN conjunct2, THEN conjunct2]
  from built rest have "?shape h1 hs form" by (rule conjI)
  then show ?thesis by - ((rule exI)+, assumption)
qed

lemma basic_world_request:
  "token_request basic_world [] =
     ([], Inr ([(''Accept'', ''application/json''),
                (''Content-Type'', ''application/x-www-form-urlencoded''),
                (''Authorization'', ''Basic app:s3cret'')],
               [(''grant_type'', ''client_credentials''), (''scope'', ''system/*.read''),
                (''aud'', ''http://auth/token'')]))"
  by code_simp

lemma key_world_request:
  "token_request key_world [] =
     ([ReadFile (JStr ''private.pem''), Clock 1700000000123, Drew ''uuid-2''],
      Inr ([(''Accept'', ''application/json''),
            (''Content-Type'', ''application/x-www-form-urlencoded'')],
           [(''grant_type'', ''client_credentials''), (''scope'', ''system/Encounter.read''),
            (''client_id'', ''app''),
            (''client_assertion_type'', ''urn:ietf:params:oauth:client-assertion-type:jwt-bearer''),
            (''client_assertion'', ''k1.uuid-2.key:PKCS8'')]))"
  by code_simp

theorem getFhirToken_request_shape_witness:
  "get (CFG basic_world) ''AUTH_MODE'' = JStr ''CLIENT_SECRET_BASIC''
   \<and> ''CLIENT_SECRET_BASIC'' \<in> set supported_modes
   \<and> missing_fields (CFG basic_world) common_fields = []
   \<and> missing_fields (CFG basic_world) (mode_fields ''CLIENT_SECRET_BASIC'') = []
   \<and> fst (getFhirToken basic_world []) =
       [Sent \<lparr>verb = ''POST'', url = JStr ''http://auth/token'',
              body = JStr ''grant_type=client_credentials&scope=system%2F*.read&aud=http%3A%2F%2Fauth%2Ftoken'',
              headers = [(''Accept'', ''application/json''),
                         (''Content-Type'', ''application/x-www-form-urlencoded''),
                         (''Authorization'', ''Basic app:s3cret'')],
              timeout = 25000\<rparr>]
   \<and> get (CFG key_world) ''AUTH_MODE'' = JStr ''SOF_BACKEND''
   \<and> ''SOF_BACKEND'' \<in> set supported_modes
   \<and> missing_fields (CFG key_world) common_fields = []
   \<and> missing_fields (CFG key_world) (mode_fields ''SOF_BACKEND'') = []
   \<and> signClientAssertion key_world (get (CFG key_world) ''CLIENT_ID'') (audience (CFG key_world))
        (get (CFG key_world) ''KID'') (get (CFG key_world) ''PRIVATE_KEY_PATH'') [] =
       ([ReadFile (JStr ''private.pem''), Clock 1700000000123, Drew ''uuid-2''],
        Inr ''k1.uuid-2.key:PKCS8'')
   \<and> get (CFG key_world) ''REQUIRE_AUD'' = JBool False
   \<and> fst (getFhirToken key_world []) =
       [ReadFile (JStr ''private.pem''), Clock 1700000000123, Drew ''uuid-2'',
        Sent \<lparr>verb = ''POST'', url = JStr ''http://auth/token'',
              body = JStr (toString
                [(''grant_type'', ''client_credentials''), (''scope'', ''system/Encounter.read''),
                 (''client_id'', ''app''),
                 (''client_assertion_type'',
                    ''urn:ietf:params:oauth:client-assertion-type:jwt-bearer''),
                 (''client_assertion'', ''k1.uuid-2.key:PKCS8'')]),
              headers = [(''Accept'', ''application/json''),
                         (''Content-Type'', ''application/x-www-form-urlencoded'')],
              timeout = 25000\<rparr>]"
proof -
  have b1: "get (CFG basic_world) ''AUTH_MODE'' = JStr ''CLIENT_SECRET_BASIC''" by code_simp
  have b2: "missing_fields (CFG basic_world) common_fields = []" by code_simp
  have b3: "missing_fields (CFG basic_world) (mode_fields ''CLIENT_SECRET_BASIC'') = []"
    by code_simp
  have b4: "''CLIENT_SECRET_BASIC'' \<in> set supported_modes" by code_simp
  have b5: "''CLIENT_SECRET_BASIC'' = ''SOF_BACKEND'' \<or> ''CLIENT_SECRET_BASIC'' = ''PRIVATE_KEY_JWT''
      \<longrightarrow> signClientAssertion basic_world (get (CFG basic_world) ''CLIENT_ID'')
            (audience (CFG basic_world)) (get (CFG basic_world) ''KID'')
            (get (CFG basic_world) ''PRIVATE_KEY_PATH'') [] = ([], Inr [])"
    by simp
  have k1: "get (CFG key_world) ''AUTH_MODE'' = JStr ''SOF_BACKEND''" by code_simp
  have k2: "missing_fields (CFG key_world) common_fields = []" by code_simp
  have k3: "missing_fields (CFG key_world) (mode_fields ''SOF_BACKEND'') = []" by code_simp
  have k4: "''SOF_BACKEND'' \<in> set supported_modes" by code_simp
  have k5: "signClientAssertion key_world (get (CFG key_world) ''CLIENT_ID'')
        (audience (CFG key_world)) (get (CFG key_world) ''KID'')
        (get (CFG key_world) ''PRIVATE_KEY_PATH'') [] =
       ([ReadFile (JStr ''private.pem''), Clock 1700000000123, Drew ''uuid-2''],
        Inr ''k1.uuid-2.key:PKCS8'')"
    by code_simp
  have k6: "get (CFG key_world) ''REQUIRE_AUD'' = JBool False" by code_simp
  have u1: "env_var basic_world ''TOKEN_URL'' = JStr ''http://auth/token''" by code_simp
  have u2: "env_var key_world ''TOKEN_URL'' = JStr ''http://auth/token''" by code_simp
  have t: "toString [(''grant_type'', ''client_credentials''), (''scope'', ''system/*.read''),
                (''aud'', ''http://auth/token'')]
      = ''grant_type=client_credentials&scope=system%2F*.read&aud=http%3A%2F%2Fauth%2Ftoken''"
    by code_simp
  from getFhirToken_request_shape [OF b1 b4 b2 b3 b5]
  have s1: "fst (getFhirToken basic_world []) =
       [Sent \<lparr>verb = ''POST'', url = JStr ''http://auth/token'',
              body = JStr ''grant_type=client_credentials&scope=system%2F*.read&aud=http%3A%2F%2Fauth%2Ftoken'',
              headers = [(''Accept'', ''application/json''),
                         (''Content-Type'', ''application/x-www-form-urlencoded''),
                         (''Authorization'', ''Basic app:s3cret'')],
              timeout = 25000\<rparr>]"
    by (auto simp: basic_world_request u1 t)
  from getFhirToken_request_shape [OF k1 k4 k2 k3, of "[]"] k5
  have s2: "fst (getFhirToken key_world []) =
       [ReadFile (JStr ''private.pem''), Clock 1700000000123, Drew ''uuid-2'',
        Sent \<lparr>verb = ''POST'', url = JStr ''http://auth/token'',
              body = JStr (toString
                [(''grant_type'', ''client_credentials''), (''scope'', ''system/Encounter.read''),
                 (''client_id'', ''app''),
                 (''client_assertion_type'',
                    ''urn:ietf:params:oauth:client-assertion-type:jwt-bearer''),
                 (''client_assertion'', ''k1.uuid-2.key:PKCS8'')]),
              headers = [(''Accept'', ''application/json''),
                         (''Content-Type'', ''application/x-www-form-urlencoded'')],
              timeout = 25000\<rparr>]"
    by (auto simp: key_world_request u2)
  from b1 b4 b2 b3 s1 k1 k4 k2 k3 k5 k6 s2 show ?thesis by (intro conjI)
qed

text \<open>
  Claim C3, as the code has it. In each of the four modes, when a key that every mode
  needs (\<^verbatim>\<open>TOKEN_URL\<close>, \<^verbatim>\<open>CLIENT_ID\<close>, \<^verbatim>\<open>FHIR_BASE\<close>) is missing, that is absent, empty
  or of white space only, \<^verbatim>\<open>getFhirToken\<close> throws before any request or other effect,
  and the message lists exactly the missing keys among these three; when these are
  configured and a key of the mode itself is missing, it throws in the same way, and the
  message lists exactly the missing keys of the mode.
\<close>

theorem getFhirToken_missing_fields:
  assumes "get (CFG w) ''AUTH_MODE'' = JStr m" and "m \<in> set supported_modes"
  shows "(missing_fields (CFG w) common_fields \<noteq> [] \<longrightarrow>
            getFhirToken w h =
              (h, Inl (Error (''Missing env: ''
                               @ join '', '' (missing_fields (CFG w) common_fields)))))
       \<and> (missing_fields (CFG w) common_fields = [] \<longrightarrow>
          missing_fields (CFG w) (mode_fields m) \<noteq> [] \<longrightarrow>
            getFhirToken w h =
              (h, Inl (Error (''Missing env: ''
                               @ join '', '' (missing_fields (CFG w) (mode_fields m))))))"
proof (intro conjI impI)
  assume "missing_fields (CFG w) common_fields \<noteq> []"
  then show "getFhirToken w h =
      (h, Inl (Error (''Missing env: '' @ join '', '' (missing_fields (CFG w) common_fields))))"
    by (simp add: getFhirToken_def need_missing common_fields_def)
next
  assume c: "missing_fields (CFG w) common_fields = []"
    and e: "missing_fields (CFG w) (mode_fields m) \<noteq> []"
  from c token_request_missing [OF assms e, of h]
  show "getFhirToken w h =
      (h, Inl (Error (''Missing env: '' @ join '', '' (missing_fields (CFG w) (mode_fields m)))))"
    by (simp add: getFhirToken_def need_missing common_fields_def)
qed

text \<open>
  The claim as it is written fails where keys of both groups are missing: with neither
  \<^verbatim>\<open>TOKEN_URL\<close> nor a usable \<^verbatim>\<open>CLIENT_SECRET\<close> in mode \<^verbatim>\<open>CLIENT_SECRET_POST\<close>, the
  message names \<^verbatim>\<open>TOKEN_URL\<close> only.
\<close>

theorem getFhirToken_missing_fields_counterexample:
  "get (CFG bare_world) ''AUTH_MODE'' = JStr ''CLIENT_SECRET_POST''
   \<and> missing_fields (CFG bare_world) (common_fields @ mode_fields ''CLIENT_SECRET_POST'')
       = [''TOKEN_URL'', ''CLIENT_SECRET'']
   \<and> getFhirToken bare_world [] = ([], Inl (Error ''Missing env: TOKEN_URL''))"
  by code_simp

theorem getFhirToken_missing_fields_witness:
  "get (CFG bare_world) ''AUTH_MODE'' = JStr ''CLIENT_SECRET_POST''
   \<and> ''CLIENT_SECRET_POST'' \<in> set supported_modes
   \<and> missing_fields (CFG bare_world) common_fields = [''TOKEN_URL'']
   \<and> getFhirToken bare_world [] = ([], Inl (Error ''Missing env: TOKEN_URL''))
   \<and> get (CFG no_secret_world) ''AUTH_MODE'' = JStr ''CLIENT_SECRET_POST''
   \<and> missing_fields (CFG no_secret_world) common_fields = []
   \<and> missing_fields (CFG no_secret_world) (mode_fields ''CLIENT_SECRET_POST'')
       = [''CLIENT_SECRET'']
   \<and> getFhirToken no_secret_world [] = ([], Inl (Error ''Missing env: CLIENT_SECRET''))"
proof -
  have m1: "get (CFG bare_world) ''AUTH_MODE'' = JStr ''CLIENT_SECRET_POST''" by code_simp
  have m2: "get (CFG no_secret_world) ''AUTH_MODE'' = JStr ''CLIENT_SECRET_POST''" by code_simp
  have s: "''CLIENT_SECRET_POST'' \<in> set supported_modes" by code_simp
  have c1: "missing_fields (CFG bare_world) common_fields = [''TOKEN_URL'']" by code_simp
  have c2: "missing_fields (CFG no_secret_world) common_fields = []" by code_simp
  have e2: "missing_fields (CFG no_secret_world) (mode_fields ''CLIENT_SECRET_POST'')
      = [''CLIENT_SECRET'']" by code_simp
  from getFhirToken_missing_fields [OF m1 s, of "[]"]
    getFhirToken_missing_fields [OF m2 s, of "[]"]
  show ?thesis using m1 m2 s by (simp add: c1 c2 e2)
qed

subsection \<open>The launch loop\<close>

lemma sent_append: "sent (a @ b) = sent a @ sent b"
  by (induction a rule: sent.induct) simp_all

lemma warnings_append: "warnings (a @ b) = warnings a @ warnings b"
  by (induction a rule: warnings.induct) simp_all

lemma well_referenced_patient:
  "well_referenced enc \<Longrightarrow> getPatientIdFromEncounter enc = Inr (patient_of enc)"
  by (auto simp: well_referenced_def patient_of_def getPatientIdFromEncounter_def
      split: json.splits)

lemma post_launch_events:
  "\<exists>h'. post_launch w a b p e h = h @ h'
      \<and> sent h' = [\<lparr>verb = ''POST'', url = JStr a, body = launch_body (CFG w) p e,
                     headers = [(''Content-Type'', ''application/json''),
                                (''Authorization'', ''Bearer '' @ js_String b),
                                (''X-Request-ID'', uuid w h),
                                (''X-Correlation-ID'', uuid w (h @ [Drew (uuid w h)]))],
                     timeout = 60000\<rparr>]
      \<and> warnings h' = []"
  by (cases "respond w (h @ [Drew (uuid w h), Drew (uuid w (h @ [Drew (uuid w h)]))])
        \<lparr>verb = ''POST'', url = JStr a, body = launch_body (CFG w) p e,
                     headers = [(''Content-Type'', ''application/json''),
                                (''Authorization'', ''Bearer '' @ js_String b),
                                (''X-Request-ID'', uuid w h),
                                (''X-Correlation-ID'', uuid w (h @ [Drew (uuid w h)]))],
                     timeout = 60000\<rparr>")
     (simp_all add: post_launch_def axios_post_def)

lemma launch_encounter_events:
  assumes "well_referenced enc"
  shows "\<exists>h'. launch_encounter w a b enc h = (h @ h', Inr ())
      \<and> map verb (sent h') = (if launchable enc then [''POST''] else [])
      \<and> map url (sent h') = (if launchable enc then [JStr a] else [])
      \<and> map body (sent h') =
          (if launchable enc then [launch_body (CFG w) (patient_of enc) (opt_prop enc ''id'')]
           else [])
      \<and> warnings h' = (if launchable enc then [] else [skip_warning enc])"
proof (cases "launchable enc")
  case True
  let ?h1 = "h @ [Console Log (''POST '' @ a @ ''  (Encounter/''
                                    @ js_String (opt_prop enc ''id'') @ '', Patient/''
                                    @ js_String (patient_of enc) @ '')'')]"
  from post_launch_events [of w a b "patient_of enc" "opt_prop enc ''id''" ?h1]
  obtain h' where h': "post_launch w a b (patient_of enc) (opt_prop enc ''id'') ?h1 = ?h1 @ h'"
    "map verb (sent h') = [''POST'']"
    "map url (sent h') = [JStr a]"
    "map body (sent h') = [launch_body (CFG w) (patient_of enc) (opt_prop enc ''id'')]"
    "warnings h' = []"
    by auto
  from True have c: "(truthy (opt_prop enc ''id'') \<and> truthy (patient_of enc)) = True"
    by (simp add: launchable_def)
  have "launch_encounter w a b enc h = (?h1 @ h', Inr ())"
    by (simp only: launch_encounter_def well_referenced_patient [OF assms] sum.case c
        if_True h'(1))
  then have "launch_encounter w a b enc h = (h @ (Console Log (''POST '' @ a @ ''  (Encounter/''
                                    @ js_String (opt_prop enc ''id'') @ '', Patient/''
                                    @ js_String (patient_of enc) @ '')'') # h'), Inr ())"
    by simp
  with h'(2-5) True show ?thesis
    by (intro exI [of _ "Console Log (''POST '' @ a @ ''  (Encounter/''
                                    @ js_String (opt_prop enc ''id'') @ '', Patient/''
                                    @ js_String (patient_of enc) @ '')'') # h'"]) simp
next
  case False
  then have c: "(truthy (opt_prop enc ''id'') \<and> truthy (patient_of enc)) = False"
    by (simp add: launchable_def)
  have "launch_encounter w a b enc h = (h @ [Console Warn (skip_warning enc)], Inr ())"
    by (simp only: launch_encounter_def well_referenced_patient [OF assms] sum.case c
        if_False skip_warning_def)
  with False show ?thesis
    by (intro exI [of _ "[Console Warn (skip_warning enc)]"]) simp
qed

lemma launch_encounters_events:
  assumes "list_all well_referenced encs"
  shows "\<exists>h'. launch_encounters w a b encs h = (h @ h', Inr ())
      \<and> map verb (sent h') = map (\<lambda>enc. ''POST'') (filter launchable encs)
      \<and> map url (sent h') = map (\<lambda>enc. JStr a) (filter launchable encs)
      \<and> map body (sent h') =
          map (\<lambda>enc. launch_body (CFG w) (patient_of enc) (opt_prop enc ''id''))
            (filter launchable encs)
      \<and> warnings h' = map skip_warning (filter (\<lambda>enc. \<not> launchable enc) encs)"
  using assms
proof (induction encs arbitrary: h)
  case Nil
  then show ?case by simp
next
  case (Cons enc encs)
  from Cons.prems have wr: "well_referenced enc" and rest: "list_all well_referenced encs"
    by simp_all
  from launch_encounter_events [OF wr, of w a b h] obtain h1 where
    h1: "launch_encounter w a b enc h = (h @ h1, Inr ())"
      "map verb (sent h1) = (if launchable enc then [''POST''] else [])"
      "map url (sent h1) = (if launchable enc then [JStr a] else [])"
      "map body (sent h1) =
          (if launchable enc then [launch_body (CFG w) (patient_of enc) (opt_prop enc ''id'')]
           else [])"
      "warnings h1 = (if launchable enc then [] else [skip_warning enc])"
    by blast
  from Cons.IH [OF rest, of "h @ h1"] obtain h2 where
    h2: "launch_encounters w a b encs (h @ h1) = ((h @ h1) @ h2, Inr ())"
      "map verb (sent h2) = map (\<lambda>enc. ''POST'') (filter launchable encs)"
      "map url (sent h2) = map (\<lambda>enc. JStr a) (filter launchable encs)"
      "map body (sent h2) =
          map (\<lambda>enc. launch_body (CFG w) (patient_of enc) (opt_prop enc ''id''))
            (filter launchable encs)"
      "warnings h2 = map skip_warning (filter (\<lambda>enc. \<not> launchable enc) encs)"
    by blast
  have "launch_encounters w a b (enc # encs) h = (h @ (h1 @ h2), Inr ())"
    using h1(1) h2(1) by simp
  with h1(2-5) h2(2-5) show ?case
    by (intro exI [of _ "h1 @ h2"]) (simp add: sent_append warnings_append)
qed

text \<open>
  Claim C8. Let \<^verbatim>\<open>runLaunchFlow\<close> have reached its loop with the Encounters
  \<open>encounters\<close>, each with a \<^verbatim>\<open>subject.reference\<close> that is a string or falsy. Then the
  flow ends normally, and from there on it sends one request per Encounter that has a
  truthy id and a truthy patient id, in order, each a POST of that Encounter's launch body
  to the launch address, and it writes one skip warning per other Encounter, in order: a
  launch POST is issued for an Encounter if and only if both ids are there. A rejected
  POST does not end the loop.
\<close>

theorem runLaunchFlow_posts_launchable:
  assumes "launch_encounters_found w fuel h = Some (h1, Inr (ecrBearer, encounters))"
    and "list_all well_referenced encounters"
  shows "\<exists>h'. runLaunchFlow w fuel h = Some (h1 @ h', Inr ())
      \<and> map verb (sent h') = map (\<lambda>enc. ''POST'') (filter launchable encounters)
      \<and> map url (sent h') = map (\<lambda>enc. JStr (launch_address w)) (filter launchable encounters)
      \<and> map body (sent h') =
          map (\<lambda>enc. launch_body (CFG w) (patient_of enc) (opt_prop enc ''id''))
            (filter launchable encounters)
      \<and> warnings h' = map skip_warning (filter (\<lambda>enc. \<not> launchable enc) encounters)"
  using launch_encounters_events [OF assms(2), of w "launch_address w" ecrBearer h1]
  by (auto simp: runLaunchFlow_def assms(1))

lemma clinic_found:
  "launch_encounters_found clinic_world (Suc 0) [] =
     Some (clinic_prelude, Inr (JStr ''ecr-tok'', [visit_one, visit_two]))"
  by code_simp

theorem runLaunchFlow_posts_launchable_witness:
  "launch_encounters_found clinic_world (Suc 0) []
     = Some (clinic_prelude, Inr (JStr ''ecr-tok'', [visit_one, visit_two]))
   \<and> list_all well_referenced [visit_one, visit_two]
   \<and> filter launchable [visit_one, visit_two] = [visit_one]
   \<and> map_option (\<lambda>(h, r). (map url (sent h), warnings h, r))
         (runLaunchFlow clinic_world (Suc 0) [])
       = Some ([JStr ''http://auth/token'', JStr ''http://ecr/token'',
                JStr ''http://f/Encounter?recorded-date=ge2025-02-25&recorded-date=le2025-02-27&_count=100'',
                JStr ''http://localhost:8081/api/launchPatient''],
               [''Skipping encounter with missing ids (encounterId=2, patientId=null)''],
               Inr ())"
proof -
  have refs: "list_all well_referenced [visit_one, visit_two]" by code_simp
  have yes: "filter launchable [visit_one, visit_two] = [visit_one]" by code_simp
  have no: "filter (\<lambda>enc. \<not> launchable enc) [visit_one, visit_two] = [visit_two]" by code_simp
  have a: "launch_address clinic_world = ''http://localhost:8081/api/launchPatient''"
    by code_simp
  have s: "skip_warning visit_two
      = ''Skipping encounter with missing ids (encounterId=2, patientId=null)''"
    by code_simp
  have p: "map url (sent clinic_prelude) =
      [JStr ''http://auth/token'', JStr ''http://ecr/token'',
       JStr ''http://f/Encounter?recorded-date=ge2025-02-25&recorded-date=le2025-02-27&_count=100'']"
    "warnings clinic_prelude = []"
    by code_simp+
  from runLaunchFlow_posts_launchable [OF clinic_found refs] obtain h' where
    run: "runLaunchFlow clinic_world (Suc 0) [] = Some (clinic_prelude @ h', Inr ())"
    and u: "map url (sent h') =
        map (\<lambda>enc. JStr (launch_address clinic_world)) (filter launchable [visit_one, visit_two])"
    and wn: "warnings h' =
        map skip_warning (filter (\<lambda>enc. \<not> launchable enc) [visit_one, visit_two])"
    by blast
  have u': "map url (sent h') = [JStr ''http://localhost:8081/api/launchPatient'']"
    using u unfolding yes a by simp
  have w': "warnings h' =
      [''Skipping encounter with missing ids (encounterId=2, patientId=null)'']"
    using wn unfolding no by (simp add: s)
  have "map_option (\<lambda>(h, r). (map url (sent h), warnings h, r))
         (runLaunchFlow clinic_world (Suc 0) [])
       = Some ([JStr ''http://auth/token'', JStr ''http://ecr/token'',
                JStr ''http://f/Encounter?recorded-date=ge2025-02-25&recorded-date=le2025-02-27&_count=100'',
                JStr ''http://localhost:8081/api/launchPatient''],
               [''Skipping encounter with missing ids (encounterId=2, patientId=null)''],
               Inr ())"
    by (simp add: run sent_append warnings_append u' w' p)
  with clinic_found refs yes show ?thesis by (intro conjI)
qed

subsection \<open>The patient of an Encounter\<close>

lemma split_nonempty: "split c s \<noteq> []"
  by (induction s) (auto split: list.splits)

lemma hd_split: "hd (split c s) = takeWhile (\<lambda>x. x \<noteq> c) s"
  by (induction s) (auto split: list.splits simp: split_nonempty)

lemma split_before: "c \<notin> set p \<Longrightarrow> split c (p @ c # r) = p # split c r"
  by (induction p) (auto split: list.splits)

lemma second_segment:
  assumes "startsWith ref ''Patient/''"
  shows "at_index (split CHR ''/'' ref) 1
       = JStr (takeWhile (\<lambda>c. c \<noteq> CHR ''/'') (drop (length ''Patient/'') ref))"
proof -
  define d where "d = drop (length ''Patient/'') ref"
  from assms have "take (length ''Patient/'') ref = ''Patient/''"
    by (simp only: startsWith_def)
  then have "ref = ''Patient/'' @ d"
    unfolding d_def by (metis append_take_drop_id)
  then have ref: "ref = ''Patient'' @ CHR ''/'' # d" by simp
  have "split CHR ''/'' (''Patient'' @ CHR ''/'' # d) = ''Patient'' # split CHR ''/'' d"
    by (rule split_before) simp
  with ref have s: "split CHR ''/'' ref = ''Patient'' # split CHR ''/'' d" by simp
  obtain x xs where x: "split CHR ''/'' d = x # xs"
    using split_nonempty [of "CHR ''/''" d] by (cases "split CHR ''/'' d") auto
  with hd_split [of "CHR ''/''" d] have "x = takeWhile (\<lambda>c. c \<noteq> CHR ''/'') d" by simp
  with s x show ?thesis unfolding d_def [symmetric] by (simp add: at_index_def)
qed

text \<open>
  Claim C10, as the code has it. For an Encounter whose \<^verbatim>\<open>subject.reference\<close> is a
  string, \<^verbatim>\<open>getPatientIdFromEncounter\<close> returns, when the string starts with
  \<^verbatim>\<open>Patient/\<close>, the part of it after \<^verbatim>\<open>Patient/\<close> up to the next slash (all of it when
  there is none), and \<^verbatim>\<open>null\<close> otherwise; it returns \<^verbatim>\<open>null\<close> when there is no
  reference. Where it returns \<^verbatim>\<open>null\<close>, as for an absolute URL or a urn, the loop of the
  launch flow writes the skip warning and sends nothing.
\<close>

theorem getPatientIdFromEncounter_segment:
  "(\<forall>ref. opt_prop (opt_prop enc ''subject'') ''reference'' = JStr ref \<longrightarrow>
        getPatientIdFromEncounter enc =
          Inr (if startsWith ref ''Patient/''
               then JStr (takeWhile (\<lambda>c. c \<noteq> CHR ''/'') (drop (length ''Patient/'') ref))
               else JNull))
   \<and> (\<not> truthy (opt_prop (opt_prop enc ''subject'') ''reference'') \<longrightarrow>
        getPatientIdFromEncounter enc = Inr JNull)
   \<and> (\<not> truthy (opt_prop (opt_prop enc ''subject'') ''reference'')
        \<or> (\<exists>ref. opt_prop (opt_prop enc ''subject'') ''reference'' = JStr ref
                  \<and> \<not> startsWith ref ''Patient/'') \<longrightarrow>
        launch_encounter w address ecrBearer enc h =
          (h @ [Console Warn (''Skipping encounter with missing ids (encounterId=''
                                @ js_String (opt_prop enc ''id'') @ '', patientId=null)'')],
           Inr ()))"
proof (intro conjI allI impI)
  fix ref
  assume r: "opt_prop (opt_prop enc ''subject'') ''reference'' = JStr ref"
  show "getPatientIdFromEncounter enc =
          Inr (if startsWith ref ''Patient/''
               then JStr (takeWhile (\<lambda>c. c \<noteq> CHR ''/'') (drop (length ''Patient/'') ref))
               else JNull)"
  proof (cases "startsWith ref ''Patient/''")
    case True
    then have "ref \<noteq> []" by (auto simp: startsWith_def)
    with True show ?thesis
      unfolding getPatientIdFromEncounter_def r
      by (simp only: js_or_def truthy.simps if_True json.case second_segment [OF True]
          simp_thms)
  next
    case False
    then show ?thesis
      by (simp add: getPatientIdFromEncounter_def r js_or_def startsWith_def)
  qed
next
  assume "\<not> truthy (opt_prop (opt_prop enc ''subject'') ''reference'')"
  then show "getPatientIdFromEncounter enc = Inr JNull"
    by (simp add: getPatientIdFromEncounter_def js_or_def startsWith_def)
next
  assume a: "\<not> truthy (opt_prop (opt_prop enc ''subject'') ''reference'')
        \<or> (\<exists>ref. opt_prop (opt_prop enc ''subject'') ''reference'' = JStr ref
                  \<and> \<not> startsWith ref ''Patient/'')"
  then have "getPatientIdFromEncounter enc = Inr JNull"
    by (auto simp: getPatientIdFromEncounter_def js_or_def startsWith_def)
  then show "launch_encounter w address ecrBearer enc h =
          (h @ [Console Warn (''Skipping encounter with missing ids (encounterId=''
                                @ js_String (opt_prop enc ''id'') @ '', patientId=null)'')],
           Inr ())"
    by (simp add: launch_encounter_def)
qed

text \<open>
  The claim as it is written fails on a versioned reference: what is returned is the
  logical id, not the text after \<^verbatim>\<open>Patient/\<close>.
\<close>

theorem getPatientIdFromEncounter_segment_counterexample:
  "getPatientIdFromEncounter versioned_visit = Inr (JStr ''123'')
   \<and> opt_prop (opt_prop versioned_visit ''subject'') ''reference''
       = JStr ''Patient/123/_history/1''
   \<and> startsWith ''Patient/123/_history/1'' ''Patient/''
   \<and> drop (length ''Patient/'') ''Patient/123/_history/1'' = ''123/_history/1''"
  by code_simp

theorem getPatientIdFromEncounter_segment_witness:
  "opt_prop (opt_prop visit_one ''subject'') ''reference'' = JStr ''Patient/56089''
   \<and> getPatientIdFromEncounter visit_one = Inr (JStr ''56089'')
   \<and> opt_prop (opt_prop absolute_visit ''subject'') ''reference'' = JStr ''http://f/Patient/56089''
   \<and> \<not> startsWith ''http://f/Patient/56089'' ''Patient/''
   \<and> getPatientIdFromEncounter absolute_visit = Inr JNull
   \<and> launch_encounter clinic_world ''http://localhost:8081/api/launchPatient'' (JStr ''ecr-tok'')
         absolute_visit [] =
       ([Console Warn ''Skipping encounter with missing ids (encounterId=4, patientId=null)''],
        Inr ())
   \<and> \<not> truthy (opt_prop (opt_prop visit_two ''subject'') ''reference'')
   \<and> getPatientIdFromEncounter visit_two = Inr JNull"
proof -
  have r1: "opt_prop (opt_prop visit_one ''subject'') ''reference'' = JStr ''Patient/56089''"
    by code_simp
  have r2: "opt_prop (opt_prop absolute_visit ''subject'') ''reference''
      = JStr ''http://f/Patient/56089''"
    by code_simp
  have r3: "\<not> truthy (opt_prop (opt_prop visit_two ''subject'') ''reference'')"
    by code_simp
  have n: "\<not> startsWith ''http://f/Patient/56089'' ''Patient/''" by code_simp
  have i: "js_String (opt_prop absolute_visit ''id'') = ''4''" by code_simp
  from getPatientIdFromEncounter_segment [of visit_one]
    getPatientIdFromEncounter_segment [of absolute_visit clinic_world
      "''http://localhost:8081/api/launchPatient''" "JStr ''ecr-tok''" "[]"]
    getPatientIdFromEncounter_segment [of visit_two]
  show ?thesis using r3 by (simp add: r1 r2 n i startsWith_def)
qed

subsection \<open>Notification bundle\<close>

lemma encounter_fullUrl_string:
  "get encounter ''id'' = JStr s \<Longrightarrow>
   encounter_fullUrl encounter =
     Inr (if startsWith s ''Encounter/'' then s
          else ''Encounter/'' @ (if s = [] then ''unknown'' else s))"
  by (cases encounter) (auto simp: encounter_fullUrl_def read_prop_def js_or_def)

lemma encounter_fullUrl_absent:
  "\<not> nullish encounter \<Longrightarrow> nullish (get encounter ''id'') \<Longrightarrow>
   encounter_fullUrl encounter = Inr ''Encounter/unknown''"
  by (cases "get encounter ''id''") (auto simp: encounter_fullUrl_def read_prop_def js_or_def)

text \<open>
  Claim C7. For an Encounter whose id is a string or absent, and options that are not
  \<^verbatim>\<open>null\<close>, \<^verbatim>\<open>buildNotificationBundle\<close> reads the clock, draws an identifier and
  returns a Bundle of type \<^verbatim>\<open>history\<close> with exactly two entries: the first holds a
  \<^verbatim>\<open>Parameters\<close> resource with the parameter \<^verbatim>\<open>status\<close> of \<^verbatim>\<open>valueCode\<close>
  \<^verbatim>\<open>active\<close>, the second holds the Encounter under the address made from its id,
  \<^verbatim>\<open>Encounter/123\<close> for the id \<^verbatim>\<open>123\<close> and \<^verbatim>\<open>Encounter/unknown\<close> when the id is
  absent.
\<close>

theorem buildNotificationBundle_entries:
  assumes "options \<noteq> JNull" and "\<not> nullish encounter"
    and "nullish (get encounter ''id'') \<or> (\<exists>s. get encounter ''id'' = JStr s)"
  shows "\<exists>bundle first second.
      buildNotificationBundle w encounter options h =
        (h @ [Clock (date_now w h), Drew (uuid w (h @ [Clock (date_now w h)]))], Inr bundle)
      \<and> get bundle ''resourceType'' = JStr ''Bundle''
      \<and> get bundle ''type'' = JStr ''history''
      \<and> get bundle ''entry'' = JArr [first, second]
      \<and> get (get first ''resource'') ''resourceType'' = JStr ''Parameters''
      \<and> (\<exists>ps. get (get first ''resource'') ''parameter'' = JArr ps
             \<and> JObj [(''name'', JStr ''status''), (''valueCode'', JStr ''active'')] \<in> set ps)
      \<and> get second ''resource'' = encounter
      \<and> get second ''fullUrl'' = JStr (bundle_url encounter)
      \<and> (get encounter ''id'' = JStr ''123'' \<longrightarrow> get second ''fullUrl'' = JStr ''Encounter/123'')
      \<and> (nullish (get encounter ''id'') \<longrightarrow> get second ''fullUrl'' = JStr ''Encounter/unknown'')"
proof -
  have u: "encounter_fullUrl encounter = Inr (bundle_url encounter)"
    using assms(2,3)
    by (auto simp: encounter_fullUrl_string encounter_fullUrl_absent bundle_url_def
        split: json.splits)
  have a: "get encounter ''id'' = JStr ''123'' \<longrightarrow> bundle_url encounter = ''Encounter/123''"
    by (simp add: bundle_url_def startsWith_def)
  have b: "nullish (get encounter ''id'') \<longrightarrow> bundle_url encounter = ''Encounter/unknown''"
    by (cases "get encounter ''id''") (simp_all add: bundle_url_def)
  show ?thesis
    using assms(1) a b
    by (simp add: buildNotificationBundle_def u)
qed

theorem buildNotificationBundle_entries_witness:
  "JUndefined \<noteq> JNull \<and> \<not> nullish (encounter_of ''123'')
   \<and> get (encounter_of ''123'') ''id'' = JStr ''123''
   \<and> (\<exists>bundle first second.
        buildNotificationBundle demo_world (encounter_of ''123'') JUndefined [] =
          ([Clock 1700000000123, Drew ''uuid-1''], Inr bundle)
        \<and> get bundle ''type'' = JStr ''history''
        \<and> get bundle ''entry'' = JArr [first, second]
        \<and> get (get first ''resource'') ''resourceType'' = JStr ''Parameters''
        \<and> get second ''fullUrl'' = JStr ''Encounter/123'')
   \<and> nullish (get (JObj [(''resourceType'', JStr ''Encounter'')]) ''id'')
   \<and> (\<exists>bundle first second.
        buildNotificationBundle demo_world (JObj [(''resourceType'', JStr ''Encounter'')])
            (JObj []) [] =
          ([Clock 1700000000123, Drew ''uuid-1''], Inr bundle)
        \<and> get bundle ''entry'' = JArr [first, second]
        \<and> get second ''fullUrl'' = JStr ''Encounter/unknown'')"
proof -
  have o: "JUndefined \<noteq> JNull" "JObj [] \<noteq> JNull" by simp_all
  have e: "\<not> nullish (encounter_of ''123'')"
    "\<not> nullish (JObj [(''resourceType'', JStr ''Encounter'')])" by code_simp+
  have i: "get (encounter_of ''123'') ''id'' = JStr ''123''" by code_simp
  have j: "nullish (get (JObj [(''resourceType'', JStr ''Encounter'')]) ''id'')" by code_simp
  have c: "date_now demo_world [] = 1700000000123"
    "uuid demo_world ([] @ [Clock 1700000000123]) = ''uuid-1''"
    by code_simp+
  from buildNotificationBundle_entries [of JUndefined "encounter_of ''123''" demo_world "[]"]
    buildNotificationBundle_entries
      [of "JObj []" "JObj [(''resourceType'', JStr ''Encounter'')]" demo_world "[]"]
  show ?thesis using o e i j unfolding c
    by (simp only: simp_thms append_Nil c) blast
qed

end
